theory Spec2Isabelle
  imports Complex_Main "HOL-Library.Log_Nat"
begin

section \<open>Python values used by both programs\<close>

text \<open>
  The repository holds two Python programs: \<^verbatim>\<open>server.py\<close>, an HTTP adapter in front of a
  speech-to-text engine, and \<^verbatim>\<open>sweep.py\<close>, a driver that calls the adapter for a list of
  files and configurations. Both are embedded below as HOL functions. Exceptions are
  values of \<open>py_error\<close> on the left of a sum, the file system and the call logs are passed
  explicitly, and everything the programs get from outside (the engine, the clock,
  \<^verbatim>\<open>float()\<close>, \<^verbatim>\<open>int()\<close>, \<^verbatim>\<open>curl\<close>, \<^verbatim>\<open>json.loads\<close>) is a field of a record of
  collaborators.
\<close>

datatype py_error =
    ValueError
  | TypeError
  | KeyError
  | AttributeError
  | FileNotFoundError
  | OtherError string

subsection \<open>Strings\<close>

text \<open>
  A Python \<^verbatim>\<open>str\<close> is modelled by a \<open>string\<close>, one \<open>char\<close> per code point below 256.
  \<open>is_space\<close> is \<^verbatim>\<open>str.isspace\<close> on one such code point: U+0009 to U+000D, U+001C to
  U+001F, the blank, U+0085 and U+00A0.
\<close>

definition is_space :: "char \<Rightarrow> bool" where
  "is_space c =
     (let n = (of_char c :: nat)
      in (9 \<le> n \<and> n \<le> 13) \<or> (28 \<le> n \<and> n \<le> 31) \<or> n = 32 \<or> n = 133 \<or> n = 160)"

text \<open>\<^verbatim>\<open>s.strip()\<close>: white space is dropped at both ends.\<close>

definition strip :: "string \<Rightarrow> string" where
  "strip s = rev (dropWhile is_space (rev (dropWhile is_space s)))"

text \<open>
  \<^verbatim>\<open>s.split(sep)\<close> for a separator of one character: the scanner collects the current
  field in \<open>acc\<close> (reversed) and closes it at every separator and at the end of input.
\<close>

fun split_acc :: "char \<Rightarrow> string \<Rightarrow> string \<Rightarrow> string list" where
  "split_acc sep acc [] = [rev acc]"
| "split_acc sep acc (c # cs) =
     (if c = sep then rev acc # split_acc sep [] cs else split_acc sep (c # acc) cs)"

definition split :: "char \<Rightarrow> string \<Rightarrow> string list" where
  "split sep s = split_acc sep [] s"

text \<open>\<^verbatim>\<open>sep.join(parts)\<close>.\<close>

fun join :: "string \<Rightarrow> string list \<Rightarrow> string" where
  "join sep [] = []"
| "join sep [x] = x"
| "join sep (x # y # zs) = x @ sep @ join sep (y # zs)"

subsection \<open>Integers as text\<close>

definition digit_char :: "nat \<Rightarrow> char" where
  "digit_char d = char_of (48 + d)"

fun digits :: "nat \<Rightarrow> string" where
  "digits n = (if n < 10 then [digit_char n] else digits (n div 10) @ [digit_char (n mod 10)])"

declare digits.simps [simp del]

text \<open>\<^verbatim>\<open>str(i)\<close> for an integer.\<close>

definition str_int :: "int \<Rightarrow> string" where
  "str_int i = (if i < 0 then CHR ''-'' # digits (nat (- i)) else digits (nat i))"

definition zfill :: "nat \<Rightarrow> string \<Rightarrow> string" where
  "zfill w s = replicate (w - length s) CHR ''0'' @ s"

text \<open>
  The format specification \<^verbatim>\<open>0wd\<close> of an f-string (\<^verbatim>\<open>{h:02d}\<close>, \<^verbatim>\<open>{ms:03d}\<close>): the sign
  comes first and zeros fill the rest of the width \<open>w\<close>; a longer number is not cut.
\<close>

definition fmt_0d :: "nat \<Rightarrow> int \<Rightarrow> string" where
  "fmt_0d w i =
     (if i < 0 then CHR ''-'' # zfill (w - 1) (digits (nat (- i))) else zfill w (digits (nat i)))"

subsection \<open>Floats\<close>

text \<open>
  A finite Python \<^verbatim>\<open>float\<close> is an IEEE binary64 number; it is modelled by its exact value,
  a rational. The arithmetic of the source rounds every result to the nearest binary64
  number, ties to the even significand; \<open>b64\<close> is that rounding for the normal range
  (no overflow, no subnormal numbers: the seconds, probabilities and sums of the two
  programs stay far from both). \<open>ilog2 x\<close> is the binary exponent of \<open>x \<noteq> 0\<close>:
  \<open>2 ^ ilog2 x \<le> \<bar>x\<bar> < 2 ^ (ilog2 x + 1)\<close>.
\<close>

definition round_half_even :: "rat \<Rightarrow> int" where
  "round_half_even x =
     (let f = \<lfloor>x\<rfloor>; d = x - of_int f
      in if d < 1 / 2 then f else if 1 / 2 < d then f + 1 else if even f then f else f + 1)"

definition ilog2 :: "rat \<Rightarrow> int" where
  "ilog2 x =
     (let a = \<bar>x\<bar>
      in if 1 \<le> a then int (floorlog 2 (nat \<lfloor>a\<rfloor>)) - 1
         else - int (floorlog 2 (nat (\<lceil>1 / a\<rceil> - 1))))"

definition b64 :: "rat \<Rightarrow> rat" where
  "b64 x =
     (if x = 0 then 0
      else let q = 2 powi (ilog2 x - 52) in of_int (round_half_even (x / q)) * q)"

definition f_add :: "rat \<Rightarrow> rat \<Rightarrow> rat" where
  "f_add x y = b64 (x + y)"

definition f_sub :: "rat \<Rightarrow> rat \<Rightarrow> rat" where
  "f_sub x y = b64 (x - y)"

definition f_mul :: "rat \<Rightarrow> rat \<Rightarrow> rat" where
  "f_mul x y = b64 (x * y)"

definition f_div :: "rat \<Rightarrow> rat \<Rightarrow> rat" where
  "f_div x y = b64 (x / y)"

text \<open>\<^verbatim>\<open>int(x)\<close> of a float: truncation towards zero.\<close>

definition py_int :: "rat \<Rightarrow> int" where
  "py_int x = (if 0 \<le> x then \<lfloor>x\<rfloor> else \<lceil>x\<rceil>)"

text \<open>
  C's \<^verbatim>\<open>fmod\<close> is exact: the remainder has the sign of the dividend. CPython's float
  \<^verbatim>\<open>%\<close> corrects it to the sign of the divisor, and its float \<^verbatim>\<open>//\<close> is computed
  from the same remainder (\<^verbatim>\<open>float_rem\<close> and \<^verbatim>\<open>_float_div_mod\<close> of floatobject.c).
  Every divisor in the source is a non-zero literal, so ZeroDivisionError is not a case.
\<close>

definition c_fmod :: "rat \<Rightarrow> rat \<Rightarrow> rat" where
  "c_fmod x y = x - of_int (py_int (x / y)) * y"

definition f_mod :: "rat \<Rightarrow> rat \<Rightarrow> rat" where
  "f_mod x y =
     (let m = c_fmod x y
      in if m \<noteq> 0 \<and> ((y < 0) \<noteq> (m < 0)) then f_add m y else m)"

definition f_floordiv :: "rat \<Rightarrow> rat \<Rightarrow> rat" where
  "f_floordiv x y =
     (let m = c_fmod x y;
          d0 = f_div (f_sub x m) y;
          d = (if m \<noteq> 0 \<and> ((y < 0) \<noteq> (m < 0)) then f_sub d0 1 else d0)
      in if d \<noteq> 0
         then (let fl = of_int \<lfloor>d\<rfloor> in if 1 / 2 < f_sub d fl then f_add fl 1 else fl)
         else 0)"

text \<open>
  \<^verbatim>\<open>round(x, n)\<close> of a float: the exact value is rounded to \<open>n\<close> decimal places, ties to
  even, and the decimal is read back as a binary64 number.
\<close>

definition py_round :: "rat \<Rightarrow> nat \<Rightarrow> rat" where
  "py_round x n = b64 (of_int (round_half_even (x * 10 ^ n)) / 10 ^ n)"

section \<open>server.py: helpers\<close>

definition format_timestamp :: "rat \<Rightarrow> string" where
  "format_timestamp seconds =
     (let h = py_int (f_floordiv seconds 3600);
          m = py_int (f_floordiv (f_mod seconds 3600) 60);
          s = py_int (f_mod seconds 60);
          ms = py_int (f_mul (f_mod seconds 1) 1000)
      in fmt_0d 2 h @ '':'' @ fmt_0d 2 m @ '':'' @ fmt_0d 2 s @ '','' @ fmt_0d 3 ms)"

definition format_vtt_timestamp :: "rat \<Rightarrow> string" where
  "format_vtt_timestamp seconds =
     (let h = py_int (f_floordiv seconds 3600);
          m = py_int (f_floordiv (f_mod seconds 3600) 60);
          s = py_int (f_mod seconds 60);
          ms = py_int (f_mul (f_mod seconds 1) 1000)
      in fmt_0d 2 h @ '':'' @ fmt_0d 2 m @ '':'' @ fmt_0d 2 s @ ''.'' @ fmt_0d 3 ms)"

text \<open>
  The segment dictionaries that the handler builds and the two subtitle renderers read.
  A Python dictionary with a fixed set of literal keys is a record; the key \<^verbatim>\<open>words\<close> is
  only sometimes present, so its field is an option.
\<close>

record word_dict =
  wd_word :: string
  wd_start :: rat
  wd_end :: rat
  wd_probability :: rat

record seg_dict =
  sd_id :: int
  sd_start :: rat
  sd_end :: rat
  sd_text :: string
  sd_avg_logprob :: rat
  sd_compression_ratio :: rat
  sd_no_speech_prob :: rat
  sd_temperature :: rat
  sd_words :: "word_dict list option"

definition newline :: string where
  "newline = [char_of (10::nat)]"

text \<open>
  \<^verbatim>\<open>segments_to_srt\<close>: the loop over \<^verbatim>\<open>enumerate(segments, 1)\<close> carries the counter and the
  list of lines built so far.
\<close>

fun srt_loop :: "nat \<Rightarrow> seg_dict list \<Rightarrow> string list \<Rightarrow> string list" where
  "srt_loop i [] lines = lines"
| "srt_loop i (seg # rest) lines =
     srt_loop (Suc i) rest
       (lines @ [str_int (int i),
                 format_timestamp (sd_start seg) @ '' --> '' @ format_timestamp (sd_end seg),
                 strip (sd_text seg),
                 []])"

definition segments_to_srt :: "seg_dict list \<Rightarrow> string" where
  "segments_to_srt segments = join newline (srt_loop 1 segments [])"

fun vtt_loop :: "seg_dict list \<Rightarrow> string list \<Rightarrow> string list" where
  "vtt_loop [] lines = lines"
| "vtt_loop (seg # rest) lines =
     vtt_loop rest
       (lines @ [format_vtt_timestamp (sd_start seg) @ '' --> '' @ format_vtt_timestamp (sd_end seg),
                 strip (sd_text seg),
                 []])"

definition segments_to_vtt :: "seg_dict list \<Rightarrow> string" where
  "segments_to_vtt segments = join newline (vtt_loop segments [''WEBVTT'', []])"

subsection \<open>Temperature\<close>

text \<open>
  A float that comes from a form field may be infinite or not a number
  (\<^verbatim>\<open>float("inf")\<close> is the default of one field), so form-side floats have their own type.
  \<^verbatim>\<open>float()\<close> itself is a collaborator: it returns a float or raises ValueError.
\<close>

datatype pyfloat = Finite rat | PosInf | NegInf | NaN

datatype temperature = Scalar pyfloat | Ladder "pyfloat list"

text \<open>
  The comprehension \<^verbatim>\<open>[float(t.strip()) for t in raw.split(",") if t.strip()]\<close>: the
  first field that \<^verbatim>\<open>float()\<close> rejects raises.
\<close>

fun float_list :: "(string \<Rightarrow> py_error + pyfloat) \<Rightarrow> string list \<Rightarrow> py_error + pyfloat list" where
  "float_list to_float [] = Inr []"
| "float_list to_float (t # ts) =
     (if strip t \<noteq> []
      then (case to_float (strip t) of
              Inl e \<Rightarrow> Inl e
            | Inr v \<Rightarrow> (case float_list to_float ts of Inl e \<Rightarrow> Inl e | Inr vs \<Rightarrow> Inr (v # vs)))
      else float_list to_float ts)"

definition parse_temperature :: "(string \<Rightarrow> py_error + pyfloat) \<Rightarrow> string \<Rightarrow> py_error + temperature" where
  "parse_temperature to_float raw =
     (if CHR '','' \<in> set raw
      then (case float_list to_float (split CHR '','' raw) of
              Inl e \<Rightarrow> Inl e
            | Inr vs \<Rightarrow> Inr (Ladder vs))
      else (case to_float raw of
              Inl e \<Rightarrow> Inl e
            | Inr val \<Rightarrow> if val = Finite 0 then Inr (Scalar (Finite 0)) else Inr (Scalar val)))"

text \<open>\<^verbatim>\<open>[int(t.strip()) for t in suppress_tokens.split(",") if t.strip()]\<close>.\<close>

fun int_list :: "(string \<Rightarrow> py_error + int) \<Rightarrow> string list \<Rightarrow> py_error + int list" where
  "int_list to_int [] = Inr []"
| "int_list to_int (t # ts) =
     (if strip t \<noteq> []
      then (case to_int (strip t) of
              Inl e \<Rightarrow> Inl e
            | Inr v \<Rightarrow> (case int_list to_int ts of Inl e \<Rightarrow> Inl e | Inr vs \<Rightarrow> Inr (v # vs)))
      else int_list to_int ts)"

section \<open>server.py: the transcription handler\<close>

subsection \<open>Request, engine and response\<close>

text \<open>The form fields of \<^verbatim>\<open>POST /v1/audio/transcriptions\<close>, as FastAPI hands them over.\<close>

record form =
  filename :: "string option"
  upload :: string
  model :: string
  language :: "string option"
  prompt :: "string option"
  response_format :: string
  temperature :: string
  timestamp_granularities :: "string list option"
  beam_size :: int
  best_of :: int
  patience :: pyfloat
  length_penalty :: pyfloat
  repetition_penalty :: pyfloat
  no_repeat_ngram_size :: int
  compression_ratio_threshold :: pyfloat
  log_prob_threshold :: pyfloat
  no_speech_threshold :: pyfloat
  condition_on_previous_text :: bool
  prompt_reset_on_temperature :: pyfloat
  suppress_blank :: bool
  suppress_tokens :: string
  max_new_tokens :: "int option"
  max_initial_timestamp :: pyfloat
  hallucination_silence_threshold :: "pyfloat option"
  hotwords :: "string option"
  word_timestamps :: "bool option"
  without_timestamps :: bool
  vad_filter :: bool
  vad_threshold :: pyfloat
  vad_min_speech_duration_ms :: int
  vad_min_silence_duration_ms :: int
  vad_max_speech_duration_s :: pyfloat
  vad_speech_pad_ms :: int

text \<open>The dictionary \<^verbatim>\<open>vad_params\<close> and the keyword arguments of the engine call.\<close>

record vad_options =
  threshold :: pyfloat
  min_speech_duration_ms :: int
  min_silence_duration_ms :: int
  max_speech_duration_s :: pyfloat
  speech_pad_ms :: int

record kwargs =
  kw_language :: "string option"
  kw_task :: string
  kw_beam_size :: int
  kw_best_of :: int
  kw_patience :: pyfloat
  kw_length_penalty :: pyfloat
  kw_repetition_penalty :: pyfloat
  kw_no_repeat_ngram_size :: int
  kw_temperature :: temperature
  kw_compression_ratio_threshold :: pyfloat
  kw_log_prob_threshold :: pyfloat
  kw_no_speech_threshold :: pyfloat
  kw_condition_on_previous_text :: bool
  kw_prompt_reset_on_temperature :: pyfloat
  kw_initial_prompt :: "string option"
  kw_suppress_blank :: bool
  kw_suppress_tokens :: "int list"
  kw_max_new_tokens :: "int option"
  kw_max_initial_timestamp :: pyfloat
  kw_word_timestamps :: bool
  kw_without_timestamps :: bool
  kw_hallucination_silence_threshold :: "pyfloat option"
  kw_hotwords :: "string option"
  kw_vad_filter :: bool
  kw_vad_parameters :: "vad_options option"

text \<open>
  What the engine yields. Its metrics are taken to be finite floats. The segment
  generator is lazy: it yields a list of segments and may then raise, which is the
  optional error beside the list.
\<close>

record word =
  word_start :: rat
  word_end :: rat
  word_text :: string
  word_probability :: rat

record segment =
  seg_id :: int
  seg_start :: rat
  seg_end :: rat
  seg_text :: string
  seg_avg_logprob :: rat
  seg_compression_ratio :: rat
  seg_no_speech_prob :: rat
  seg_temperature :: rat
  seg_words :: "word list option"

record info =
  info_language :: string
  info_duration :: rat

type_synonym filesystem = "string \<rightharpoonup> string"

type_synonym engine_result = "py_error + ((segment list \<times> py_error option) \<times> info)"

text \<open>
  The collaborators of one request: the builtins \<^verbatim>\<open>float\<close> and \<^verbatim>\<open>int\<close>, the extension
  that \<^verbatim>\<open>os.path.splitext\<close> finds, the name that \<^verbatim>\<open>NamedTemporaryFile\<close> picks before the
  suffix, the two readings of \<^verbatim>\<open>time.time()\<close>, and \<^verbatim>\<open>whisper_model.transcribe\<close>, which
  sees the file system and may change it.
\<close>

record world =
  to_float :: "string \<Rightarrow> py_error + pyfloat"
  to_int :: "string \<Rightarrow> py_error + int"
  splitext_ext :: "string \<Rightarrow> string"
  tmp_stem :: string
  time_start :: rat
  time_end :: rat
  engine :: "filesystem \<Rightarrow> string \<Rightarrow> kwargs \<Rightarrow> filesystem \<times> engine_result"

text \<open>The state a request runs in: the files on disk and the log of engine calls.\<close>

record state =
  files :: filesystem
  engine_calls :: "(string \<times> kwargs) list"

datatype json =
    JNull
  | JBool bool
  | JInt int
  | JFloat rat
  | JStr string
  | JArr "json list"
  | JObj "(string \<times> json) list"

datatype response = PlainTextResponse string | JSONResponse json

subsection \<open>The steps of the handler\<close>

text \<open>
  \<^verbatim>\<open>want_words\<close>: the explicit flag when it is given, else
  \<^verbatim>\<open>bool(timestamp_granularities and "word" in timestamp_granularities)\<close>.
\<close>

definition want_words :: "bool option \<Rightarrow> string list option \<Rightarrow> bool" where
  "want_words wt tg =
     (case wt of
        Some b \<Rightarrow> b
      | None \<Rightarrow> (case tg of None \<Rightarrow> False | Some g \<Rightarrow> g \<noteq> [] \<and> ''word'' \<in> set g))"

definition vad_params :: "form \<Rightarrow> vad_options option" where
  "vad_params f =
     (if vad_filter f
      then Some \<lparr>threshold = vad_threshold f,
                 min_speech_duration_ms = vad_min_speech_duration_ms f,
                 min_silence_duration_ms = vad_min_silence_duration_ms f,
                 max_speech_duration_s = vad_max_speech_duration_s f,
                 speech_pad_ms = vad_speech_pad_ms f\<rparr>
      else None)"

definition engine_kwargs :: "form \<Rightarrow> temperature \<Rightarrow> int list \<Rightarrow> kwargs" where
  "engine_kwargs f temp sup_tokens =
     \<lparr>kw_language = language f,
      kw_task = ''transcribe'',
      kw_beam_size = beam_size f,
      kw_best_of = best_of f,
      kw_patience = patience f,
      kw_length_penalty = length_penalty f,
      kw_repetition_penalty = repetition_penalty f,
      kw_no_repeat_ngram_size = no_repeat_ngram_size f,
      kw_temperature = temp,
      kw_compression_ratio_threshold = compression_ratio_threshold f,
      kw_log_prob_threshold = log_prob_threshold f,
      kw_no_speech_threshold = no_speech_threshold f,
      kw_condition_on_previous_text = condition_on_previous_text f,
      kw_prompt_reset_on_temperature = prompt_reset_on_temperature f,
      kw_initial_prompt = prompt f,
      kw_suppress_blank = suppress_blank f,
      kw_suppress_tokens = sup_tokens,
      kw_max_new_tokens = max_new_tokens f,
      kw_max_initial_timestamp = max_initial_timestamp f,
      kw_word_timestamps = want_words (word_timestamps f) (timestamp_granularities f),
      kw_without_timestamps = without_timestamps f,
      kw_hallucination_silence_threshold = hallucination_silence_threshold f,
      kw_hotwords = hotwords f,
      kw_vad_filter = vad_filter f,
      kw_vad_parameters = vad_params f\<rparr>"

text \<open>
  \<^verbatim>\<open>os.path.splitext(file.filename or "audio.wav")[1] or ".wav"\<close> and the name of the
  transient file.
\<close>

definition suffix_of :: "world \<Rightarrow> form \<Rightarrow> string" where
  "suffix_of w f =
     (let name = (case filename f of None \<Rightarrow> ''audio.wav'' | Some n \<Rightarrow> if n = [] then ''audio.wav'' else n);
          ext = splitext_ext w name
      in if ext = [] then ''.wav'' else ext)"

definition tmp_path :: "world \<Rightarrow> form \<Rightarrow> string" where
  "tmp_path w f = tmp_stem w @ suffix_of w f"

text \<open>\<^verbatim>\<open>os.unlink\<close>: a path that does not exist raises.\<close>

definition os_unlink :: "filesystem \<Rightarrow> string \<Rightarrow> py_error + filesystem" where
  "os_unlink fs p = (if p \<in> dom fs then Inr (fs(p := None)) else Inl FileNotFoundError)"

text \<open>The body of the loop over the segment generator.\<close>

definition word_to_dict :: "word \<Rightarrow> word_dict" where
  "word_to_dict w =
     \<lparr>wd_word = word_text w,
      wd_start = py_round (word_start w) 3,
      wd_end = py_round (word_end w) 3,
      wd_probability = py_round (word_probability w) 4\<rparr>"

definition segment_to_dict :: "segment \<Rightarrow> seg_dict" where
  "segment_to_dict seg =
     \<lparr>sd_id = seg_id seg,
      sd_start = py_round (seg_start seg) 3,
      sd_end = py_round (seg_end seg) 3,
      sd_text = seg_text seg,
      sd_avg_logprob = py_round (seg_avg_logprob seg) 4,
      sd_compression_ratio = py_round (seg_compression_ratio seg) 4,
      sd_no_speech_prob = py_round (seg_no_speech_prob seg) 4,
      sd_temperature = seg_temperature seg,
      sd_words = None\<rparr>"

definition words_of :: "word list option \<Rightarrow> word list" where
  "words_of ws = (case ws of None \<Rightarrow> [] | Some l \<Rightarrow> l)"

definition truthy_words :: "word list option \<Rightarrow> bool" where
  "truthy_words ws = (words_of ws \<noteq> [])"

record consumed =
  result_segments :: "seg_dict list"
  all_words :: "word_dict list"
  full_text_parts :: "string list"

fun consume :: "bool \<Rightarrow> segment list \<Rightarrow> consumed \<Rightarrow> consumed" where
  "consume ww [] acc = acc"
| "consume ww (seg # rest) acc =
     (let d = segment_to_dict seg
      in if ww \<and> truthy_words (seg_words seg)
         then (let wds = map word_to_dict (words_of (seg_words seg))
               in consume ww rest
                    \<lparr>result_segments = result_segments acc @ [d\<lparr>sd_words := Some wds\<rparr>],
                     all_words = all_words acc @ wds,
                     full_text_parts = full_text_parts acc @ [seg_text seg]\<rparr>)
         else consume ww rest
                \<lparr>result_segments = result_segments acc @ [d],
                 all_words = all_words acc,
                 full_text_parts = full_text_parts acc @ [seg_text seg]\<rparr>)"

text \<open>What the \<^verbatim>\<open>try\<close> block leaves for the formatting of the response.\<close>

record transcription =
  tr_segments :: "seg_dict list"
  tr_words :: "word_dict list"
  tr_full_text :: string
  tr_language :: string
  tr_duration :: rat
  tr_processing_time :: rat

definition try_body :: "world \<Rightarrow> bool \<Rightarrow> engine_result \<Rightarrow> py_error + transcription" where
  "try_body w ww r =
     (case r of
        Inl e \<Rightarrow> Inl e
      | Inr ((segs, failure), meta) \<Rightarrow>
          (let c = consume ww segs \<lparr>result_segments = [], all_words = [], full_text_parts = []\<rparr>
           in case failure of
                Some e \<Rightarrow> Inl e
              | None \<Rightarrow>
                  Inr \<lparr>tr_segments = result_segments c,
                       tr_words = all_words c,
                       tr_full_text = strip (concat (full_text_parts c)),
                       tr_language = info_language meta,
                       tr_duration = py_round (info_duration meta) 3,
                       tr_processing_time = py_round (f_sub (time_end w) (time_start w)) 3\<rparr>))"

text \<open>The response: the encoding of the dictionaries and the chain of format tests.\<close>

definition word_json :: "word_dict \<Rightarrow> json" where
  "word_json d =
     JObj [(''word'', JStr (wd_word d)),
           (''start'', JFloat (wd_start d)),
           (''end'', JFloat (wd_end d)),
           (''probability'', JFloat (wd_probability d))]"

definition segment_json :: "seg_dict \<Rightarrow> json" where
  "segment_json d =
     JObj ([(''id'', JInt (sd_id d)),
            (''start'', JFloat (sd_start d)),
            (''end'', JFloat (sd_end d)),
            (''text'', JStr (sd_text d)),
            (''avg_logprob'', JFloat (sd_avg_logprob d)),
            (''compression_ratio'', JFloat (sd_compression_ratio d)),
            (''no_speech_prob'', JFloat (sd_no_speech_prob d)),
            (''temperature'', JFloat (sd_temperature d))]
           @ (case sd_words d of None \<Rightarrow> [] | Some ws \<Rightarrow> [(''words'', JArr (map word_json ws))]))"

definition format_response :: "string \<Rightarrow> bool \<Rightarrow> transcription \<Rightarrow> response" where
  "format_response fmt ww t =
     (if fmt = ''text'' then PlainTextResponse (tr_full_text t)
      else if fmt = ''srt'' then PlainTextResponse (segments_to_srt (tr_segments t))
      else if fmt = ''vtt'' then PlainTextResponse (segments_to_vtt (tr_segments t))
      else if fmt = ''verbose_json'' then
        JSONResponse
          (JObj [(''task'', JStr ''transcribe''),
                 (''language'', JStr (tr_language t)),
                 (''duration'', JFloat (tr_duration t)),
                 (''text'', JStr (tr_full_text t)),
                 (''segments'', JArr (map segment_json (tr_segments t))),
                 (''words'', JArr (if ww then map word_json (tr_words t) else [])),
                 (''processing_time'', JFloat (tr_processing_time t))])
      else JSONResponse (JObj [(''text'', JStr (tr_full_text t))]))"

subsection \<open>The handler\<close>

text \<open>
  \<^verbatim>\<open>transcribe\<close> returns the state it leaves and either the exception that escapes it or
  its response. The upload is written before the \<^verbatim>\<open>try\<close>; the \<^verbatim>\<open>finally\<close> clause runs
  \<^verbatim>\<open>os.unlink\<close> whatever the block did, and an exception of the clause replaces the
  outcome of the block.
\<close>

definition transcribe :: "world \<Rightarrow> state \<Rightarrow> form \<Rightarrow> state \<times> (py_error + response)" where
  "transcribe w st f =
     (let ww = want_words (word_timestamps f) (timestamp_granularities f)
      in case parse_temperature (to_float w) (temperature f) of
           Inl e \<Rightarrow> (st, Inl e)
         | Inr temp \<Rightarrow>
             (case int_list (to_int w) (split CHR '','' (suppress_tokens f)) of
                Inl e \<Rightarrow> (st, Inl e)
              | Inr sup_tokens \<Rightarrow>
                  (let p = tmp_path w f;
                       fs1 = (files st)(p \<mapsto> upload f);
                       kw = engine_kwargs f temp sup_tokens;
                       (fs2, r) = engine w fs1 p kw;
                       calls = engine_calls st @ [(p, kw)];
                       body = try_body w ww r
                   in case os_unlink fs2 p of
                        Inl e \<Rightarrow> (\<lparr>files = fs2, engine_calls = calls\<rparr>, Inl e)
                      | Inr fs3 \<Rightarrow>
                          (\<lparr>files = fs3, engine_calls = calls\<rparr>,
                           case body of
                             Inl e \<Rightarrow> Inl e
                           | Inr t \<Rightarrow> Inr (format_response (response_format f) ww t)))))"

section \<open>sweep.py: the sweep driver\<close>

subsection \<open>Constants and collaborators\<close>

definition URL :: string where
  "URL = ''http://localhost:8000/v1/audio/transcriptions''"



text \<open>
  The driver's collaborators: \<^verbatim>\<open>os.path.exists\<close>, \<^verbatim>\<open>os.path.basename\<close>,
  \<^verbatim>\<open>subprocess.run\<close> on a \<^verbatim>\<open>curl\<close> command (the text of the exception it raises, or the
  standard output of the process) and \<^verbatim>\<open>json.loads\<close> (the text of the exception, or the
  value). A parsed object is an association list with distinct keys.
\<close>

record sweep_world =
  path_exists :: "string \<Rightarrow> bool"
  basename :: "string \<Rightarrow> string"
  curl :: "string list \<Rightarrow> string + string"
  json_loads :: "string \<Rightarrow> string + json"

text \<open>
  The dictionaries appended to \<^verbatim>\<open>results\<close>: a measurement, or an error record, which is
  the only one with the key \<^verbatim>\<open>error\<close>.
\<close>

record measurement =
  m_file :: string
  m_duration :: json
  m_proc_time :: json
  m_segments :: nat
  m_words :: nat
  m_avg_prob :: rat
  m_min_prob :: rat
  m_low_conf_words :: nat
  m_text :: json

datatype result = Measured measurement | ErrorRecord string string

subsection \<open>Python operations on parsed JSON\<close>

text \<open>
  Numbers are integers below \<open>2 ^ 53\<close> or floats, and \<^verbatim>\<open>True\<close> and \<^verbatim>\<open>False\<close> count as 1
  and 0 in arithmetic; anything else in a sum or a comparison raises TypeError.
\<close>

definition number_of :: "json \<Rightarrow> py_error + rat" where
  "number_of j =
     (case j of
        JInt i \<Rightarrow> Inr (of_int i)
      | JFloat x \<Rightarrow> Inr x
      | JBool b \<Rightarrow> Inr (if b then 1 else 0)
      | _ \<Rightarrow> Inl TypeError)"

text \<open>\<^verbatim>\<open>data.get(key, default)\<close>: only a dictionary has \<^verbatim>\<open>get\<close>.\<close>

definition dict_get :: "json \<Rightarrow> string \<Rightarrow> json \<Rightarrow> py_error + json" where
  "dict_get d k dflt =
     (case d of
        JObj kvs \<Rightarrow> Inr (case map_of kvs k of None \<Rightarrow> dflt | Some v \<Rightarrow> v)
      | _ \<Rightarrow> Inl AttributeError)"

text \<open>Truth value, iteration, \<^verbatim>\<open>len\<close> and \<^verbatim>\<open>w["probability"]\<close>.\<close>

definition truthy :: "json \<Rightarrow> bool" where
  "truthy j =
     (case j of
        JNull \<Rightarrow> False
      | JBool b \<Rightarrow> b
      | JInt i \<Rightarrow> i \<noteq> 0
      | JFloat x \<Rightarrow> x \<noteq> 0
      | JStr s \<Rightarrow> s \<noteq> []
      | JArr xs \<Rightarrow> xs \<noteq> []
      | JObj kvs \<Rightarrow> kvs \<noteq> [])"

definition iterate :: "json \<Rightarrow> py_error + json list" where
  "iterate j =
     (case j of
        JArr xs \<Rightarrow> Inr xs
      | JStr s \<Rightarrow> Inr (map (\<lambda>c. JStr [c]) s)
      | JObj kvs \<Rightarrow> Inr (map (\<lambda>kv. JStr (fst kv)) kvs)
      | _ \<Rightarrow> Inl TypeError)"

definition py_len :: "json \<Rightarrow> py_error + nat" where
  "py_len j =
     (case j of
        JArr xs \<Rightarrow> Inr (length xs)
      | JStr s \<Rightarrow> Inr (length s)
      | JObj kvs \<Rightarrow> Inr (length kvs)
      | _ \<Rightarrow> Inl TypeError)"

definition probability :: "json \<Rightarrow> py_error + json" where
  "probability w =
     (case w of
        JObj kvs \<Rightarrow> (case map_of kvs ''probability'' of None \<Rightarrow> Inl KeyError | Some v \<Rightarrow> Inr v)
      | _ \<Rightarrow> Inl TypeError)"

text \<open>
  \<^verbatim>\<open>sum(w["probability"] for w in words)\<close>: the generator looks one probability up and
  the sum adds it before the next word is read. Float addition rounds at every step.
  Every partial sum is rounded here, which is what Python computes for floats, and for
  integers as long as the partial sums stay below \<open>2 ^ 53\<close>; Python adds larger integers
  exactly. Probabilities lie between 0 and 1.
\<close>

fun sum_probabilities :: "json list \<Rightarrow> rat \<Rightarrow> py_error + rat" where
  "sum_probabilities [] acc = Inr acc"
| "sum_probabilities (w # ws) acc =
     (case probability w of
        Inl e \<Rightarrow> Inl e
      | Inr v \<Rightarrow> (case number_of v of
                   Inl e \<Rightarrow> Inl e
                 | Inr x \<Rightarrow> sum_probabilities ws (f_add acc x)))"

text \<open>The probabilities of all words, for \<^verbatim>\<open>min\<close> and for the low-confidence filter.\<close>

fun probabilities :: "json list \<Rightarrow> py_error + rat list" where
  "probabilities [] = Inr []"
| "probabilities (w # ws) =
     (case probability w of
        Inl e \<Rightarrow> Inl e
      | Inr v \<Rightarrow> (case number_of v of
                   Inl e \<Rightarrow> Inl e
                 | Inr x \<Rightarrow> (case probabilities ws of Inl e \<Rightarrow> Inl e | Inr xs \<Rightarrow> Inr (x # xs))))"

text \<open>
  \<^verbatim>\<open>min(xs, default=d)\<close> and \<^verbatim>\<open>sum(xs)\<close> on numbers. The sum adds from the left and
  rounds every partial sum, as CPython does up to version 3.11. The summary loop calls
  \<^verbatim>\<open>min\<close> without a default, on a list that is never empty there.
\<close>

fun py_min :: "rat list \<Rightarrow> rat \<Rightarrow> rat" where
  "py_min [] d = d"
| "py_min (x # xs) d = foldl min x xs"

definition py_sum :: "rat list \<Rightarrow> rat" where
  "py_sum xs = foldl f_add 0 xs"

text \<open>
  The format specification \<^verbatim>\<open><6\<close> in the progress line is accepted by strings and
  numbers; \<^verbatim>\<open>None\<close>, lists and dictionaries raise TypeError.
\<close>

definition format_ok :: "json \<Rightarrow> bool" where
  "format_ok j = (case j of JNull \<Rightarrow> False | JArr xs \<Rightarrow> False | JObj kvs \<Rightarrow> False | _ \<Rightarrow> True)"

subsection \<open>One test configuration\<close>

definition build_cmd :: "string \<Rightarrow> (string \<times> string) list \<Rightarrow> string list" where
  "build_cmd f params =
     [''curl'', ''-s'', ''-X'', ''POST'', URL, ''-F'', ''file=@'' @ f]
     @ [''-F'', ''language=en'', ''-F'', ''response_format=verbose_json'',
        ''-F'', ''timestamp_granularities[]=word'']
     @ concat (map (\<lambda>kv. [''-F'', fst kv @ ''='' @ snd kv]) params)"

text \<open>The \<^verbatim>\<open>try\<close> block: the request and the parse of its output.\<close>

definition fetch :: "sweep_world \<Rightarrow> string list \<Rightarrow> string + json" where
  "fetch w cmd = (case curl w cmd of Inl msg \<Rightarrow> Inl msg | Inr out \<Rightarrow> json_loads w out)"

text \<open>
  The statements after the \<^verbatim>\<open>try\<close> block, up to the progress line. They are not
  guarded: an exception here leaves \<^verbatim>\<open>run_test\<close>. What is printed is not modelled.
  \<open>and_then\<close> passes the first exception on.
\<close>

definition and_then :: "'e + 'a \<Rightarrow> ('a \<Rightarrow> 'e + 'b) \<Rightarrow> 'e + 'b" where
  "and_then r k = (case r of Inl e \<Rightarrow> Inl e | Inr x \<Rightarrow> k x)"

definition average_probability :: "json \<Rightarrow> py_error + rat" where
  "average_probability words =
     (if truthy words
      then and_then (iterate words) (\<lambda>ws.
           and_then (sum_probabilities ws 0) (\<lambda>s.
           and_then (py_len words) (\<lambda>n. Inr (f_div s (of_nat n)))))
      else Inr 0)"

definition measure_response :: "sweep_world \<Rightarrow> string \<Rightarrow> json \<Rightarrow> py_error + measurement" where
  "measure_response w f data =
     and_then (dict_get data ''text'' (JStr [])) (\<lambda>text.
     and_then (dict_get data ''duration'' (JInt 0)) (\<lambda>dur.
     and_then (dict_get data ''processing_time'' (JInt 0)) (\<lambda>ptime.
     and_then (dict_get data ''words'' (JArr [])) (\<lambda>words.
     and_then (dict_get data ''segments'' (JArr [])) (\<lambda>segs.
     and_then (average_probability words) (\<lambda>avg_prob.
     and_then (iterate words) (\<lambda>ws.
     and_then (probabilities ws) (\<lambda>ps.
     and_then (py_len segs) (\<lambda>nsegs.
     and_then (py_len words) (\<lambda>nwords.
       if format_ok dur \<and> format_ok ptime
       then Inr \<lparr>m_file = basename w f,
                 m_duration = dur,
                 m_proc_time = ptime,
                 m_segments = nsegs,
                 m_words = nwords,
                 m_avg_prob = py_round avg_prob 3,
                 m_min_prob = py_round (py_min ps 0) 3,
                 m_low_conf_words = length (filter (\<lambda>p. p < b64 (3 / 10)) ps),
                 m_text = text\<rparr>
       else Inl TypeError))))))))))"

text \<open>
  The loop of \<^verbatim>\<open>run_test\<close> over the files, with the log of \<^verbatim>\<open>curl\<close> calls and the list
  \<^verbatim>\<open>results\<close>. The label is only printed.
\<close>

fun run_loop ::
  "sweep_world \<Rightarrow> (string \<times> string) list \<Rightarrow> string list \<Rightarrow> string list list \<Rightarrow> result list
     \<Rightarrow> string list list \<times> (py_error + result list)" where
  "run_loop w params [] calls results = (calls, Inr results)"
| "run_loop w params (f # fs) calls results =
     (if \<not> path_exists w f then run_loop w params fs calls results
      else (let cmd = build_cmd f params
            in case fetch w cmd of
                 Inl msg \<Rightarrow>
                   run_loop w params fs (calls @ [cmd]) (results @ [ErrorRecord (basename w f) msg])
               | Inr data \<Rightarrow>
                   (case measure_response w f data of
                      Inl e \<Rightarrow> (calls @ [cmd], Inl e)
                    | Inr r \<Rightarrow> run_loop w params fs (calls @ [cmd]) (results @ [Measured r]))))"


subsection \<open>The script: all configurations, then the summary table\<close>



text \<open>
  The summary loop. A row holds the values that the line of the table prints; the
  text of the line (fixed widths, three decimals) is not modelled.
\<close>

record row =
  row_label :: string
  row_avg_p :: rat
  row_min_p :: rat
  row_low_c :: nat
  row_avg_t :: rat

fun valid :: "result list \<Rightarrow> measurement list" where
  "valid [] = []"
| "valid (Measured m # rs) = m # valid rs"
| "valid (ErrorRecord f msg # rs) = valid rs"

fun numbers_of :: "json list \<Rightarrow> py_error + rat list" where
  "numbers_of [] = Inr []"
| "numbers_of (j # js) =
     (case number_of j of
        Inl e \<Rightarrow> Inl e
      | Inr x \<Rightarrow> (case numbers_of js of Inl e \<Rightarrow> Inl e | Inr xs \<Rightarrow> Inr (x # xs)))"

definition summary_row :: "string \<Rightarrow> measurement list \<Rightarrow> py_error + row" where
  "summary_row label vs =
     (let avg_p = f_div (py_sum (map m_avg_prob vs)) (of_nat (length vs));
          min_p = py_min (map m_min_prob vs) 0;
          low_c = sum_list (map m_low_conf_words vs)
      in case numbers_of (map m_proc_time vs) of
           Inl e \<Rightarrow> Inl e
         | Inr ts \<Rightarrow>
             Inr \<lparr>row_label = label, row_avg_p = avg_p, row_min_p = min_p, row_low_c = low_c,
                  row_avg_t = f_div (py_sum ts) (of_nat (length vs))\<rparr>)"

fun summary_table :: "(string \<times> result list) list \<Rightarrow> row list \<Rightarrow> py_error + row list" where
  "summary_table [] rows = Inr rows"
| "summary_table ((label, results) # rest) rows =
     (if valid results = [] then summary_table rest rows
      else (case summary_row label (valid results) of
              Inl e \<Rightarrow> Inl e
            | Inr r \<Rightarrow> summary_table rest (rows @ [r])))"

section \<open>The specification's descriptions\<close>




text \<open>
  The objects of a verbose response as the specification lists them, with the rounding
  that the handler applies: a word, and a segment with its optional list of words. The
  handler's own encoding is compared with them below.
\<close>

definition word_object :: "word \<Rightarrow> json" where
  "word_object w =
     JObj [(''word'', JStr (word_text w)),
           (''start'', JFloat (py_round (word_start w) 3)),
           (''end'', JFloat (py_round (word_end w) 3)),
           (''probability'', JFloat (py_round (word_probability w) 4))]"

definition segment_object :: "bool \<Rightarrow> segment \<Rightarrow> json" where
  "segment_object ww s =
     JObj ([(''id'', JInt (seg_id s)),
            (''start'', JFloat (py_round (seg_start s) 3)),
            (''end'', JFloat (py_round (seg_end s) 3)),
            (''text'', JStr (seg_text s)),
            (''avg_logprob'', JFloat (py_round (seg_avg_logprob s) 4)),
            (''compression_ratio'', JFloat (py_round (seg_compression_ratio s) 4)),
            (''no_speech_prob'', JFloat (py_round (seg_no_speech_prob s) 4)),
            (''temperature'', JFloat (seg_temperature s))]
           @ (if ww \<and> truthy_words (seg_words s)
              then [(''words'', JArr (map word_object (words_of (seg_words s))))] else []))"

section \<open>Concrete inputs\<close>

text \<open>The float that the literal \<^verbatim>\<open>3661.234\<close> denotes.\<close>

definition t_3661_234 :: rat where
  "t_3661_234 = b64 (3661234 / 1000)"

text \<open>
  A request as the sweep driver sends it, an engine that yields one segment with one
  word, and an engine that deletes the file it was given.
\<close>

definition form0 :: form where
  "form0 =
     \<lparr>filename = Some ''call.m4a'',
      upload = ''audio'',
      model = ''whisper-1'',
      language = Some ''en'',
      prompt = None,
      response_format = ''verbose_json'',
      temperature = ''0.0'',
      timestamp_granularities = Some [''word''],
      beam_size = 5,
      best_of = 5,
      patience = Finite 1,
      length_penalty = Finite 1,
      repetition_penalty = Finite 1,
      no_repeat_ngram_size = 0,
      compression_ratio_threshold = Finite (b64 (24 / 10)),
      log_prob_threshold = Finite (- 1),
      no_speech_threshold = Finite (b64 (6 / 10)),
      condition_on_previous_text = True,
      prompt_reset_on_temperature = Finite (1 / 2),
      suppress_blank = True,
      suppress_tokens = ''-1'',
      max_new_tokens = None,
      max_initial_timestamp = Finite 1,
      hallucination_silence_threshold = None,
      hotwords = None,
      word_timestamps = None,
      without_timestamps = False,
      vad_filter = False,
      vad_threshold = Finite (1 / 2),
      vad_min_speech_duration_ms = 250,
      vad_min_silence_duration_ms = 2000,
      vad_max_speech_duration_s = PosInf,
      vad_speech_pad_ms = 400\<rparr>"

definition word0 :: word where
  "word0 = \<lparr>word_start = 0, word_end = 1 / 2, word_text = '' Engine'', word_probability = 1 / 2\<rparr>"

definition seg0 :: segment where
  "seg0 =
     \<lparr>seg_id = 0,
      seg_start = 0,
      seg_end = 1,
      seg_text = '' Engine'',
      seg_avg_logprob = - (1 / 4),
      seg_compression_ratio = 1,
      seg_no_speech_prob = 0,
      seg_temperature = 1 / 32,
      seg_words = Some [word0]\<rparr>"

definition float0 :: "string \<Rightarrow> py_error + pyfloat" where
  "float0 s =
     (if s = ''0.0'' then Inr (Finite 0)
      else if s = ''0.2'' then Inr (Finite (b64 (2 / 10)))
      else Inl ValueError)"

definition world0 :: world where
  "world0 =
     \<lparr>to_float = float0,
      to_int = (\<lambda>s. if s = ''-1'' then Inr (- 1) else Inl ValueError),
      splitext_ext = (\<lambda>n. if n = ''call.m4a'' then ''.m4a'' else []),
      tmp_stem = ''/tmp/tmp0'',
      time_start = 0,
      time_end = 1,
      engine = (\<lambda>fs p kw. (fs, Inr (([seg0], None), \<lparr>info_language = ''en'', info_duration = 1\<rparr>)))\<rparr>"

definition world1 :: world where
  "world1 =
     world0\<lparr>engine := (\<lambda>fs p kw. (fs(p := None), Inl (OtherError ''engine failed'')))\<rparr>"

definition state0 :: state where
  "state0 = \<lparr>files = Map.empty, engine_calls = []\<rparr>"



definition measurement0 :: measurement where
  "measurement0 =
     \<lparr>m_file = ''call.m4a'',
      m_duration = JFloat 3,
      m_proc_time = JFloat (1 / 2),
      m_segments = 1,
      m_words = 2,
      m_avg_prob = 1 / 2,
      m_min_prob = 1 / 4,
      m_low_conf_words = 1,
      m_text = JStr ''Engine''\<rparr>"

section \<open>Properties\<close>

subsection \<open>Rounding to binary64\<close>

lemma round_half_even_of_int: "round_half_even (of_int n) = n"
  by (simp add: round_half_even_def)

lemma round_half_even_eqI:
  assumes "\<bar>x - of_int n\<bar> < 1 / 2"
  shows "round_half_even x = n"
proof -
  let ?f = "\<lfloor>x\<rfloor>"
  have fl: "of_int ?f \<le> x" "x < of_int ?f + 1" by linarith+
  from assms have b: "x < of_int n + 1 / 2" "of_int n - 1 / 2 < x" by linarith+
  consider "?f = n" | "?f = n - 1"
  proof -
    have "of_int ?f < (of_int n :: rat) + 1 / 2" using fl b by linarith
    then have "of_int ?f < (of_int (n + 1) :: rat)" by simp
    then have u: "?f < n + 1" by (simp only: of_int_less_iff)
    have "(of_int n :: rat) - 3 / 2 < of_int ?f" using fl b by linarith
    then have "(of_int (n - 2) :: rat) < of_int ?f" by simp
    then have l: "n - 2 < ?f" by (simp only: of_int_less_iff)
    from u l have "?f = n \<or> ?f = n - 1" by linarith
    then show ?thesis using that by blast
  qed
  then show ?thesis
  proof cases
    case 1
    then have "x - of_int ?f < 1 / 2" using b by simp
    then show ?thesis using 1 by (simp add: round_half_even_def Let_def)
  next
    case 2
    then have "1 / 2 < x - of_int ?f" using b by simp
    then show ?thesis using 2 by (simp add: round_half_even_def Let_def)
  qed
qed

lemma round_half_even_near: "\<bar>x - of_int (round_half_even x)\<bar> \<le> 1 / 2"
proof -
  have fl: "of_int \<lfloor>x\<rfloor> \<le> x" "x < of_int \<lfloor>x\<rfloor> + 1" by linarith+
  then show ?thesis by (auto simp add: round_half_even_def Let_def)
qed

lemma two_powi_less_imp:
  assumes "(2::rat) powi m < 2 powi n"
  shows "m < n"
proof (rule ccontr)
  assume "\<not> m < n"
  then have "n \<le> m" by simp
  then have "(2::rat) powi n \<le> 2 powi m" by (rule power_int_increasing) simp
  with assms show False by linarith
qed

lemma two_powi_not_le_zero: "\<not> (2::rat) powi e \<le> 0"
proof -
  have "(0::rat) < 2 powi e" by simp
  then show ?thesis by (simp only: not_le)
qed

lemma ilog2_bounds:
  assumes "x \<noteq> 0"
  shows "2 powi ilog2 x \<le> \<bar>x\<bar>" and "\<bar>x\<bar> < 2 powi (ilog2 x + 1)"
proof -
  define a where "a = \<bar>x\<bar>"
  have apos: "0 < a" using assms by (simp add: a_def)
  have "2 powi ilog2 x \<le> a \<and> a < 2 powi (ilog2 x + 1)"
  proof (cases "1 \<le> a")
    case True
    define n where "n = nat \<lfloor>a\<rfloor>"
    have npos: "0 < n" using True by (simp add: n_def)
    have il: "ilog2 x = int (floorlog 2 n) - 1"
      using True by (simp add: ilog2_def a_def n_def Let_def)
    have flpos: "0 < floorlog 2 n" using npos by (simp add: floorlog_def)
    from floorlog_bounds [of n 2] npos
    have b: "2 ^ (floorlog 2 n - 1) \<le> n" "n < 2 ^ floorlog 2 n" by simp_all
    have "(of_nat n :: rat) = of_int \<lfloor>a\<rfloor>" using True by (simp add: n_def)
    then have na: "of_nat n \<le> a" "a < of_nat n + 1" by linarith+
    have "(2::rat) ^ (floorlog 2 n - 1) = of_nat (2 ^ (floorlog 2 n - 1))" by simp
    also have "\<dots> \<le> of_nat n" using b(1) by (simp only: of_nat_le_iff)
    finally have lo: "(2::rat) ^ (floorlog 2 n - 1) \<le> a" using na by linarith
    have "Suc n \<le> 2 ^ floorlog 2 n" using b(2) by simp
    then have "(of_nat (Suc n) :: rat) \<le> of_nat (2 ^ floorlog 2 n)" by (simp only: of_nat_le_iff)
    then have hi: "a < (2::rat) ^ floorlog 2 n" using na by simp
    have e1: "2 powi (int (floorlog 2 n) - 1) = (2::rat) ^ (floorlog 2 n - 1)"
      using flpos by (simp add: power_int_def nat_diff_distrib')
    have e2: "2 powi (int (floorlog 2 n) - 1 + 1) = (2::rat) ^ floorlog 2 n"
      by (simp add: power_int_def)
    show ?thesis using lo hi by (simp only: il e1 e2)
  next
    case False
    define c where "c = \<lceil>1 / a\<rceil>"
    define n where "n = nat (c - 1)"
    have inv: "1 < 1 / a" using False apos by simp
    have c2: "2 \<le> c" using inv unfolding c_def by linarith
    have npos: "0 < n" using c2 by (simp add: n_def)
    have il: "ilog2 x = - int (floorlog 2 n)"
      using False by (simp add: ilog2_def a_def n_def c_def Let_def)
    from floorlog_bounds [of n 2] npos
    have b: "2 ^ (floorlog 2 n - 1) \<le> n" "n < 2 ^ floorlog 2 n" by simp_all
    have flpos: "0 < floorlog 2 n" using npos by (simp add: floorlog_def)
    have ca: "1 / a \<le> of_int c" "of_int c - 1 < 1 / a" unfolding c_def by linarith+
    have nc: "(of_nat n :: rat) = of_int c - 1" using c2 by (simp add: n_def)
    have "Suc n \<le> 2 ^ floorlog 2 n" using b(2) by simp
    then have "(of_nat (Suc n) :: rat) \<le> of_nat (2 ^ floorlog 2 n)" by (simp only: of_nat_le_iff)
    then have "of_int c \<le> (2::rat) ^ floorlog 2 n" using nc by simp
    then have "1 / a \<le> (2::rat) ^ floorlog 2 n" using ca by linarith
    then have lo: "1 / 2 ^ floorlog 2 n \<le> a" using apos
      by (simp add: field_simps)
    have "(of_nat (2 ^ (floorlog 2 n - 1)) :: rat) \<le> of_nat n" using b(1) by (simp only: of_nat_le_iff)
    then have "(2::rat) ^ (floorlog 2 n - 1) < 1 / a" using nc ca by simp
    then have hi: "a < 1 / 2 ^ (floorlog 2 n - 1)" using apos
      by (simp add: field_simps)
    have e1: "2 powi (- int (floorlog 2 n)) = 1 / (2::rat) ^ floorlog 2 n"
      by (simp only: power_int_minus_divide power_int_of_nat)
    have eq: "- int (floorlog 2 n) + 1 = - int (floorlog 2 n - 1)" using flpos by simp
    have "2 powi (- int (floorlog 2 n) + 1) = (2::rat) powi (- int (floorlog 2 n - 1))"
      by (simp only: eq)
    also have "\<dots> = 1 / (2::rat) ^ (floorlog 2 n - 1)"
      by (simp only: power_int_minus_divide power_int_of_nat)
    finally have e2: "2 powi (- int (floorlog 2 n) + 1) = 1 / (2::rat) ^ (floorlog 2 n - 1)" .
    show ?thesis using lo hi by (simp only: il e1 e2)
  qed
  then show "2 powi ilog2 x \<le> \<bar>x\<bar>" and "\<bar>x\<bar> < 2 powi (ilog2 x + 1)"
    by (simp_all add: a_def)
qed

lemma ilog2_eqI:
  assumes "2 powi e \<le> \<bar>x\<bar>" and "\<bar>x\<bar> < 2 powi (e + 1)"
  shows "ilog2 x = e"
proof -
  have "x \<noteq> 0" using assms(1) two_powi_not_le_zero by auto
  note b = ilog2_bounds [OF this]
  have "(2::rat) powi e < 2 powi (ilog2 x + 1)" using assms(1) b(2) by linarith
  then have 1: "e < ilog2 x + 1" by (rule two_powi_less_imp)
  have "(2::rat) powi ilog2 x < 2 powi (e + 1)" using assms(2) b(1) by linarith
  then have 2: "ilog2 x < e + 1" by (rule two_powi_less_imp)
  from 1 2 show ?thesis by linarith
qed

text \<open>
  How a concrete rounding is computed: name the binary exponent \<open>e\<close> and the
  significand \<open>n\<close>, and check three inequalities between numerals.
\<close>

lemma b64_eqI:
  assumes "2 powi e \<le> \<bar>x\<bar>" and "\<bar>x\<bar> < 2 powi (e + 1)"
    and "\<bar>x / 2 powi (e - 52) - of_int n\<bar> < 1 / 2"
  shows "b64 x = of_int n * 2 powi (e - 52)"
proof -
  have "x \<noteq> 0" using assms(1) two_powi_not_le_zero by auto
  then show ?thesis
    using ilog2_eqI [OF assms(1,2)] round_half_even_eqI [OF assms(3)]
    by (simp add: b64_def Let_def)
qed

lemma b64_zero: "b64 0 = 0"
  by (simp add: b64_def)

lemma b64_small_int:
  assumes "\<bar>k\<bar> < 2 ^ 53"
  shows "b64 (of_int k) = of_int k"
proof (cases "k = 0")
  case True
  then show ?thesis by (simp add: b64_def)
next
  case False
  define x :: rat where "x = of_int k"
  define e where "e = ilog2 x"
  have x0: "x \<noteq> 0" using False by (simp add: x_def)
  note b = ilog2_bounds [OF x0]
  have "\<bar>x\<bar> = of_int \<bar>k\<bar>" by (simp add: x_def)
  also have "\<dots> < of_int (2 ^ 53)" using assms by (simp only: of_int_less_iff)
  finally have "\<bar>x\<bar> < 2 powi 53" by simp
  with b(1) have "(2::rat) powi e < 2 powi 53" unfolding e_def by linarith
  then have e53: "e < 53" by (rule two_powi_less_imp)
  define j where "j = nat (52 - e)"
  have q: "(2::rat) powi (e - 52) = 1 / 2 ^ j"
  proof -
    have "e - 52 = - int j" using e53 by (simp add: j_def)
    then show ?thesis by (simp only: power_int_minus_divide power_int_of_nat)
  qed
  have "x / 2 powi (e - 52) = of_int (k * 2 ^ j)" by (simp add: q x_def)
  then have "round_half_even (x / 2 powi (e - 52)) = k * 2 ^ j"
    by (simp only: round_half_even_of_int)
  then have "b64 x = of_int (k * 2 ^ j) * 2 powi (e - 52)"
    using x0 by (simp add: b64_def Let_def e_def)
  also have "\<dots> = x" by (simp add: q x_def)
  finally show ?thesis by (simp add: x_def)
qed

lemma b64_numeral: "numeral n < (2::int) ^ 53 \<Longrightarrow> b64 (numeral n) = numeral n"
  using b64_small_int [of "numeral n"] by simp

lemma b64_one: "b64 1 = 1"
  using b64_small_int [of 1] by simp

lemma py_int_pos_eqI:
  assumes "of_int n \<le> x" and "x < of_int n + 1" and "0 \<le> n"
  shows "py_int x = n"
proof -
  have "\<lfloor>x\<rfloor> = n" using assms(1,2) by (intro floor_unique) simp_all
  moreover have "0 \<le> x" using assms(1,3) by (meson of_int_0_le_iff order_trans)
  ultimately show ?thesis by (simp add: py_int_def)
qed

subsection \<open>The timestamp of 3661.234 seconds\<close>

lemma t_3661_234_value: "t_3661_234 = 8051138710017671 / 2199023255552"
  unfolding t_3661_234_def
  using b64_eqI [of 11 "3661234 / 1000" 8051138710017671]
  by (simp add: power_int_minus)

lemma hours_3661_234: "py_int (f_floordiv t_3661_234 3600) = 1"
proof -
  have p: "py_int (t_3661_234 / 3600) = 1"
    unfolding t_3661_234_value by (rule py_int_pos_eqI) simp_all
  have m: "c_fmod t_3661_234 3600 = t_3661_234 - 3600"
    unfolding c_fmod_def p by simp
  have "f_floordiv t_3661_234 3600 = 1"
    unfolding f_floordiv_def m f_sub_def f_div_def f_add_def
    by (simp add: t_3661_234_value b64_numeral b64_one b64_zero Let_def)
  then show ?thesis by (simp add: py_int_def)
qed

lemma minutes_3661_234: "py_int (f_floordiv (f_mod t_3661_234 3600) 60) = 1"
proof -
  have p: "py_int (t_3661_234 / 3600) = 1"
    unfolding t_3661_234_value by (rule py_int_pos_eqI) simp_all
  have m: "f_mod t_3661_234 3600 = t_3661_234 - 3600"
    unfolding f_mod_def c_fmod_def p by (simp add: t_3661_234_value)
  have p2: "py_int ((t_3661_234 - 3600) / 60) = 1"
    unfolding t_3661_234_value by (rule py_int_pos_eqI) simp_all
  have m2: "c_fmod (t_3661_234 - 3600) 60 = t_3661_234 - 3660"
    unfolding c_fmod_def p2 by simp
  have "f_floordiv (f_mod t_3661_234 3600) 60 = 1"
    unfolding m f_floordiv_def m2 f_sub_def f_div_def f_add_def
    by (simp add: t_3661_234_value b64_numeral b64_one b64_zero Let_def)
  then show ?thesis by (simp add: py_int_def)
qed

lemma seconds_3661_234: "py_int (f_mod t_3661_234 60) = 1"
proof -
  have p: "py_int (t_3661_234 / 60) = 61"
    unfolding t_3661_234_value by (rule py_int_pos_eqI) simp_all
  have m: "f_mod t_3661_234 60 = t_3661_234 - 3660"
    unfolding f_mod_def c_fmod_def p by (simp add: t_3661_234_value)
  show ?thesis unfolding m by (rule py_int_pos_eqI) (simp_all add: t_3661_234_value)
qed

lemma millis_3661_234: "py_int (f_mul (f_mod t_3661_234 1) 1000) = 233"
proof -
  have p: "py_int (t_3661_234 / 1) = 3661"
    unfolding t_3661_234_value by (rule py_int_pos_eqI) simp_all
  have m: "f_mod t_3661_234 1 = t_3661_234 - 3661"
    unfolding f_mod_def c_fmod_def p by (simp add: t_3661_234_value)
  have "f_mul (f_mod t_3661_234 1) 1000 = 64321430224875 / 274877906944"
    unfolding m f_mul_def
    unfolding t_3661_234_value
    using b64_eqI [of 7 "(8051138710017671 / 2199023255552 - 3661) * 1000" 8233143068784000]
    by (simp add: power_int_minus)
  then show ?thesis by (simp only:) (rule py_int_pos_eqI, simp_all)
qed

lemma fmt_fields_3661_234: "fmt_0d 2 1 = ''01''" "fmt_0d 3 233 = ''233''"
  by code_simp+

text \<open>
  C5. The specification expects \<^verbatim>\<open>format_timestamp(3661.234)\<close> to be \<^verbatim>\<open>01:01:01,234\<close> and
  \<^verbatim>\<open>format_vtt_timestamp(3661.234)\<close> to be \<^verbatim>\<open>01:01:01.234\<close>. The float 3661.234 lies just
  below the decimal, its fraction times 1000 is the float 233.9999999999236, and
  \<^verbatim>\<open>int\<close> cuts that to 233: both functions print 233 milliseconds.
\<close>

theorem format_timestamp_3661_234:
  "format_timestamp t_3661_234 = ''01:01:01,233''
   \<and> format_vtt_timestamp t_3661_234 = ''01:01:01.233''"
  unfolding format_timestamp_def format_vtt_timestamp_def
    hours_3661_234 minutes_3661_234 seconds_3661_234 millis_3661_234 Let_def
    fmt_fields_3661_234
  by simp

subsection \<open>The handler\<close>

lemma transcribe_parsed:
  assumes "parse_temperature (to_float w) (temperature f) = Inr temp"
    and "int_list (to_int w) (split CHR '','' (suppress_tokens f)) = Inr toks"
  shows "transcribe w st f =
     (let ww = want_words (word_timestamps f) (timestamp_granularities f);
          p = tmp_path w f;
          kw = engine_kwargs f temp toks;
          out = engine w ((files st)(p \<mapsto> upload f)) p kw;
          calls = engine_calls st @ [(p, kw)]
      in case os_unlink (fst out) p of
           Inl e \<Rightarrow> (\<lparr>files = fst out, engine_calls = calls\<rparr>, Inl e)
         | Inr fs3 \<Rightarrow>
             (\<lparr>files = fs3, engine_calls = calls\<rparr>,
              case try_body w ww (snd out) of
                Inl e \<Rightarrow> Inl e
              | Inr t \<Rightarrow> Inr (format_response (response_format f) ww t)))"
  using assms by (simp add: transcribe_def Let_def case_prod_beta)

lemma transcribe_rejected:
  assumes "parse_temperature (to_float w) (temperature f) = Inl e
           \<or> (\<exists>temp. parse_temperature (to_float w) (temperature f) = Inr temp
                \<and> int_list (to_int w) (split CHR '','' (suppress_tokens f)) = Inl e)"
  shows "transcribe w st f = (st, Inl e)"
  using assms by (auto simp add: transcribe_def Let_def)

lemma parse0:
  "parse_temperature (to_float world0) (temperature form0) = Inr (Scalar (Finite 0))"
  "int_list (to_int world0) (split CHR '','' (suppress_tokens form0)) = Inr [- 1]"
  "parse_temperature (to_float world1) (temperature form0) = Inr (Scalar (Finite 0))"
  "int_list (to_int world1) (split CHR '','' (suppress_tokens form0)) = Inr [- 1]"
  by (simp_all add: world0_def world1_def form0_def float0_def parse_temperature_def split_def strip_def
      is_space_def)

text \<open>
  C2. Word timestamps are asked of the engine exactly when the flag \<^verbatim>\<open>word_timestamps\<close> is
  true, or the flag is absent and \<^verbatim>\<open>timestamp_granularities[]\<close> contains \<^verbatim>\<open>word\<close>. With the
  flag absent and the granularities \<^verbatim>\<open>["word"]\<close> they are asked for; with the flag false
  and the same granularities they are not.
\<close>

theorem want_words_resolution:
  "kw_word_timestamps (engine_kwargs f temp toks)
     = want_words (word_timestamps f) (timestamp_granularities f)
   \<and> (want_words wt tg \<longleftrightarrow>
        wt = Some True \<or> (wt = None \<and> (\<exists>g. tg = Some g \<and> ''word'' \<in> set g)))
   \<and> want_words None (Some [''word'']) = True
   \<and> want_words (Some False) (Some [''word'']) = False"
  by (auto simp add: engine_kwargs_def want_words_def split: option.splits)

theorem want_words_resolution_witness:
  "kw_word_timestamps (engine_kwargs form0 (Scalar (Finite 0)) [- 1]) = True"
  using want_words_resolution [where f = form0 and temp = "Scalar (Finite 0)" and toks = "[- 1]"
      and wt = None and tg = "Some [''word'']"]
  by (simp add: form0_def)

text \<open>
  C3. A request whose temperature and suppress-tokens fields parse makes exactly one
  engine call, and a request that fails to parse makes none. The keyword arguments of
  the call have \<^verbatim>\<open>vad_parameters = None\<close> when \<^verbatim>\<open>vad_filter\<close> is false, and the options built
  from the five VAD form fields when it is true.
\<close>

theorem vad_parameters_passed:
  "(case parse_temperature (to_float w) (temperature f) of
      Inl e \<Rightarrow> engine_calls (fst (transcribe w st f)) = engine_calls st
    | Inr temp \<Rightarrow>
        (case int_list (to_int w) (split CHR '','' (suppress_tokens f)) of
           Inl e \<Rightarrow> engine_calls (fst (transcribe w st f)) = engine_calls st
         | Inr toks \<Rightarrow>
             engine_calls (fst (transcribe w st f))
               = engine_calls st @ [(tmp_path w f, engine_kwargs f temp toks)]))
   \<and> kw_vad_filter (engine_kwargs f a b) = vad_filter f
   \<and> kw_vad_parameters (engine_kwargs f a b)
       = (if vad_filter f
          then Some \<lparr>threshold = vad_threshold f,
                     min_speech_duration_ms = vad_min_speech_duration_ms f,
                     min_silence_duration_ms = vad_min_silence_duration_ms f,
                     max_speech_duration_s = vad_max_speech_duration_s f,
                     speech_pad_ms = vad_speech_pad_ms f\<rparr>
          else None)"
proof -
  have calls: "engine_calls (fst (transcribe w st f))
      = engine_calls st @ [(tmp_path w f, engine_kwargs f temp toks)]"
    if "parse_temperature (to_float w) (temperature f) = Inr temp"
      and "int_list (to_int w) (split CHR '','' (suppress_tokens f)) = Inr toks"
    for temp toks
    by (simp add: transcribe_parsed [OF that] Let_def split: sum.splits)
  have none: "engine_calls (fst (transcribe w st f)) = engine_calls st"
    if "parse_temperature (to_float w) (temperature f) = Inl e
        \<or> (\<exists>temp. parse_temperature (to_float w) (temperature f) = Inr temp
             \<and> int_list (to_int w) (split CHR '','' (suppress_tokens f)) = Inl e)"
    for e
    by (simp add: transcribe_rejected [OF that])
  show ?thesis
    using calls none
    by (auto simp add: engine_kwargs_def vad_params_def split: sum.splits)
qed

theorem vad_parameters_passed_witness:
  "engine_calls (fst (transcribe world0 state0 form0))
     = [(tmp_path world0 form0, engine_kwargs form0 (Scalar (Finite 0)) [- 1])]
   \<and> kw_vad_parameters (engine_kwargs form0 (Scalar (Finite 0)) [- 1]) = None
   \<and> kw_vad_parameters (engine_kwargs (form0\<lparr>vad_filter := True\<rparr>) (Scalar (Finite 0)) [- 1])
       = Some \<lparr>threshold = Finite (1 / 2), min_speech_duration_ms = 250,
                min_silence_duration_ms = 2000, max_speech_duration_s = PosInf,
                speech_pad_ms = 400\<rparr>"
  using vad_parameters_passed [where w = world0 and f = form0 and st = state0
      and a = "Scalar (Finite 0)" and b = "[- 1]"]
    vad_parameters_passed [where w = world0 and f = "form0\<lparr>vad_filter := True\<rparr>"
      and st = state0 and a = "Scalar (Finite 0)" and b = "[- 1]"]
  by (simp add: parse0 state0_def) (simp add: form0_def)

text \<open>
  C8. For a request that reaches the engine call, the transient file is not on disk
  after the handler, whatever the engine returned or raised and whatever it did to the
  file system. If the file is still there after the engine call, \<^verbatim>\<open>os.unlink\<close> removes
  just that file; if it is already gone, \<^verbatim>\<open>os.unlink\<close> raises and the handler ends with
  FileNotFoundError.
\<close>

theorem transient_file_removed:
  assumes "parse_temperature (to_float w) (temperature f) = Inr temp"
    and "int_list (to_int w) (split CHR '','' (suppress_tokens f)) = Inr toks"
  shows "tmp_path w f \<notin> dom (files (fst (transcribe w st f)))
    \<and> (let p = tmp_path w f;
            out = engine w ((files st)(p \<mapsto> upload f)) p (engine_kwargs f temp toks)
        in (p \<in> dom (fst out) \<longrightarrow> files (fst (transcribe w st f)) = (fst out)(p := None))
         \<and> (p \<notin> dom (fst out) \<longrightarrow>
              files (fst (transcribe w st f)) = fst out
              \<and> snd (transcribe w st f) = Inl FileNotFoundError))"
  by (simp add: transcribe_parsed [OF assms] Let_def os_unlink_def)

theorem transient_file_removed_witness:
  "tmp_path world0 form0 \<notin> dom (files (fst (transcribe world0 state0 form0)))
   \<and> tmp_path world1 form0 \<notin> dom (files (fst (transcribe world1 state0 form0)))
   \<and> snd (transcribe world1 state0 form0) = Inl FileNotFoundError"
  using transient_file_removed [OF parse0(1,2), where st = state0]
    transient_file_removed [OF parse0(3,4), where st = state0]
  by (simp add: Let_def world1_def)

subsection \<open>Parsing the temperature\<close>

lemma split_acc_not_Nil: "split_acc sep acc s \<noteq> []"
  by (induction s arbitrary: acc) auto

lemma join_split_acc: "join [sep] (split_acc sep acc s) = rev acc @ s"
proof (induction s arbitrary: acc)
  case Nil
  then show ?case by simp
next
  case (Cons c cs)
  show ?case
  proof (cases "c = sep")
    case True
    obtain y ys where "split_acc sep [] cs = y # ys"
      using split_acc_not_Nil [of sep "[]" cs] by (cases "split_acc sep [] cs") auto
    with Cons.IH [of "[]"] True show ?thesis by simp
  next
    case False
    with Cons.IH [of "c # acc"] show ?thesis by simp
  qed
qed

lemma split_acc_free:
  "sep \<notin> set acc \<Longrightarrow> t \<in> set (split_acc sep acc s) \<Longrightarrow> sep \<notin> set t"
proof (induction s arbitrary: acc)
  case Nil
  then show ?case by simp
next
  case (Cons c cs)
  show ?case
  proof (cases "c = sep")
    case True
    with Cons.prems have "t = rev acc \<or> t \<in> set (split_acc sep [] cs)" by simp
    then show ?thesis
    proof
      assume "t = rev acc"
      with Cons.prems(1) show ?thesis by simp
    next
      assume "t \<in> set (split_acc sep [] cs)"
      with Cons.IH [of "[]"] show ?thesis by simp
    qed
  next
    case False
    with Cons.prems have "t \<in> set (split_acc sep (c # acc) cs)" by simp
    moreover have "sep \<notin> set (c # acc)" using False Cons.prems(1) by simp
    ultimately show ?thesis by (rule Cons.IH [rotated])
  qed
qed

lemma length_split_acc: "length (split_acc sep acc s) = Suc (count_list s sep)"
  by (induction s arbitrary: acc) auto

lemma float_list_Inr:
  "float_list pf ts = Inr vs \<longleftrightarrow>
     list_all2 (\<lambda>t v. pf t = Inr v) (filter (\<lambda>t. t \<noteq> []) (map strip ts)) vs"
proof (induction ts arbitrary: vs)
  case Nil
  then show ?case by auto
next
  case (Cons t ts)
  show ?case
  proof (cases "strip t = []")
    case True
    then show ?thesis using Cons.IH by simp
  next
    case False
    then show ?thesis
      by (auto simp add: Cons.IH [symmetric] list_all2_Cons1 split: sum.splits)
  qed
qed

lemma strip_trims:
  "\<exists>a b. t = a @ strip t @ b \<and> (\<forall>c \<in> set a. is_space c) \<and> (\<forall>c \<in> set b. is_space c)
     \<and> (strip t \<noteq> [] \<longrightarrow> \<not> is_space (hd (strip t)) \<and> \<not> is_space (last (strip t)))"
proof -
  define a where "a = takeWhile is_space t"
  define u where "u = dropWhile is_space t"
  define b where "b = rev (takeWhile is_space (rev u))"
  have s: "strip t = rev (dropWhile is_space (rev u))" by (simp add: strip_def u_def)
  have "rev (strip t @ b) = rev u" by (simp add: s b_def)
  then have u: "u = strip t @ b" by (simp only: rev_is_rev_conv)
  have "t = a @ u" by (simp add: a_def u_def)
  then have t: "t = a @ strip t @ b" using u by simp
  have sa: "\<forall>c \<in> set a. is_space c" unfolding a_def by (meson set_takeWhileD)
  have sb: "\<forall>c \<in> set b. is_space c" unfolding b_def by (auto dest: set_takeWhileD)
  have ends: "\<not> is_space (hd (strip t)) \<and> \<not> is_space (last (strip t))" if ne: "strip t \<noteq> []"
  proof
    have d: "dropWhile is_space (rev u) \<noteq> []" using ne by (simp add: s)
    have "last (strip t) = hd (dropWhile is_space (rev u))"
      using d by (simp add: s last_rev)
    then show "\<not> is_space (last (strip t))" using d hd_dropWhile by metis
    have une: "u \<noteq> []" using ne u by auto
    then have "\<not> is_space (hd u)" unfolding u_def using hd_dropWhile by metis
    moreover have "hd u = hd (strip t)" using u ne by (metis hd_append2)
    ultimately show "\<not> is_space (hd (strip t))" by simp
  qed
  from t sa sb ends show ?thesis by blast
qed

text \<open>
  C1. With a comma in the input, \<^verbatim>\<open>parse_temperature\<close> returns a list exactly when
  \<^verbatim>\<open>float()\<close> accepts every trimmed, non-empty field between the commas, and the list
  holds their floats in order. Without a comma the result is the one float of the whole
  input, as a scalar, and an input that \<^verbatim>\<open>float()\<close> rejects raises. The input \<^verbatim>\<open>0.0\<close>
  gives the scalar 0.0. The fields are the input cut at its commas: joined by commas
  they give the input back, none holds a comma, and there is one more of them than
  commas. Trimming removes white space at both ends and nothing else.
\<close>

theorem parse_temperature_spec:
  "(CHR '','' \<in> set raw \<longrightarrow>
      (\<forall>r. parse_temperature pf raw = Inr r \<longleftrightarrow>
         (\<exists>vs. r = Ladder vs
            \<and> list_all2 (\<lambda>t v. pf t = Inr v)
                 (filter (\<lambda>t. t \<noteq> []) (map strip (split CHR '','' raw))) vs)))
   \<and> (CHR '','' \<notin> set raw \<longrightarrow>
        (\<forall>v. pf raw = Inr v \<longrightarrow> parse_temperature pf raw = Inr (Scalar v))
        \<and> (\<forall>e. pf raw = Inl e \<longrightarrow> parse_temperature pf raw = Inl e))
   \<and> (pf ''0.0'' = Inr (Finite 0) \<longrightarrow> parse_temperature pf ''0.0'' = Inr (Scalar (Finite 0)))
   \<and> join '','' (split CHR '','' raw) = raw
   \<and> (\<forall>t \<in> set (split CHR '','' raw). CHR '','' \<notin> set t)
   \<and> length (split CHR '','' raw) = Suc (count_list raw CHR '','')
   \<and> (\<forall>t. \<exists>a b. t = a @ strip t @ b
          \<and> (\<forall>c \<in> set a. is_space c) \<and> (\<forall>c \<in> set b. is_space c)
          \<and> (strip t \<noteq> [] \<longrightarrow> \<not> is_space (hd (strip t)) \<and> \<not> is_space (last (strip t))))"
proof (intro conjI impI allI)
  fix r
  assume "CHR '','' \<in> set raw"
  then show "parse_temperature pf raw = Inr r \<longleftrightarrow>
         (\<exists>vs. r = Ladder vs
            \<and> list_all2 (\<lambda>t v. pf t = Inr v)
                 (filter (\<lambda>t. t \<noteq> []) (map strip (split CHR '','' raw))) vs)"
    by (auto simp add: parse_temperature_def float_list_Inr [symmetric] split: sum.splits)
next
  fix v
  assume "CHR '','' \<notin> set raw" "pf raw = Inr v"
  then show "parse_temperature pf raw = Inr (Scalar v)"
    by (simp add: parse_temperature_def)
next
  fix e
  assume "CHR '','' \<notin> set raw" "pf raw = Inl e"
  then show "parse_temperature pf raw = Inl e"
    by (simp add: parse_temperature_def)
next
  assume "pf ''0.0'' = Inr (Finite 0)"
  then show "parse_temperature pf ''0.0'' = Inr (Scalar (Finite 0))"
    by (simp add: parse_temperature_def)
next
  show "join '','' (split CHR '','' raw) = raw"
    using join_split_acc [of "CHR '',''" "[]" raw] by (simp add: split_def)
next
  show "\<forall>t \<in> set (split CHR '','' raw). CHR '','' \<notin> set t"
    using split_acc_free [of "CHR '',''" "[]"] by (auto simp add: split_def)
next
  show "length (split CHR '','' raw) = Suc (count_list raw CHR '','')"
    by (simp add: split_def length_split_acc)
next
  fix t
  show "\<exists>a b. t = a @ strip t @ b
          \<and> (\<forall>c \<in> set a. is_space c) \<and> (\<forall>c \<in> set b. is_space c)
          \<and> (strip t \<noteq> [] \<longrightarrow> \<not> is_space (hd (strip t)) \<and> \<not> is_space (last (strip t)))"
    by (rule strip_trims)
qed

theorem parse_temperature_spec_witness:
  "parse_temperature float0 ''0.0, 0.2,'' = Inr (Ladder [Finite 0, Finite (b64 (2 / 10))])
   \<and> parse_temperature float0 ''0.0'' = Inr (Scalar (Finite 0))
   \<and> parse_temperature float0 ''0.0'' \<noteq> Inr (Ladder [Finite 0])"
proof -
  have s: "filter (\<lambda>t. t \<noteq> []) (map strip (split CHR '','' ''0.0, 0.2,'')) = [''0.0'', ''0.2'']"
    by (simp add: split_def strip_def is_space_def)
  note t = parse_temperature_spec [where pf = float0]
  have 1: "parse_temperature float0 ''0.0, 0.2,'' = Inr (Ladder [Finite 0, Finite (b64 (2 / 10))])"
    using t [where raw = "''0.0, 0.2,''"] by (simp add: s float0_def)
  have 2: "parse_temperature float0 ''0.0'' = Inr (Scalar (Finite 0))"
    using t [where raw = "''0.0''"] by (simp add: float0_def)
  from 1 2 show ?thesis by simp
qed

subsection \<open>The verbose response\<close>

lemma py_round_decimal:
  "\<exists>k. py_round x n = b64 (of_int k / 10 ^ n) \<and> \<bar>x * 10 ^ n - of_int k\<bar> \<le> 1 / 2"
  unfolding py_round_def using round_half_even_near [of "x * 10 ^ n"] by blast

lemma segment_to_dict_no_words: "(segment_to_dict s)\<lparr>sd_words := None\<rparr> = segment_to_dict s"
  by (simp add: segment_to_dict_def)

lemma consume_True:
  "consume True segs acc =
     \<lparr>result_segments = result_segments acc
        @ map (\<lambda>s. (segment_to_dict s)
                 \<lparr>sd_words := if truthy_words (seg_words s)
                               then Some (map word_to_dict (words_of (seg_words s))) else None\<rparr>) segs,
      all_words = all_words acc
        @ concat (map (\<lambda>s. map word_to_dict (words_of (seg_words s))) segs),
      full_text_parts = full_text_parts acc @ map seg_text segs\<rparr>"
  by (induction segs arbitrary: acc)
     (simp_all add: Let_def segment_to_dict_no_words truthy_words_def)

lemma consume_False:
  "consume False segs acc =
     \<lparr>result_segments = result_segments acc @ map segment_to_dict segs,
      all_words = all_words acc,
      full_text_parts = full_text_parts acc @ map seg_text segs\<rparr>"
  by (induction segs arbitrary: acc) (simp_all add: Let_def)

lemma consume_append:
  "consume ww segs acc =
     \<lparr>result_segments = result_segments acc
        @ map (\<lambda>s. (segment_to_dict s)
                 \<lparr>sd_words := if ww \<and> truthy_words (seg_words s)
                               then Some (map word_to_dict (words_of (seg_words s))) else None\<rparr>) segs,
      all_words = all_words acc
        @ (if ww then concat (map (\<lambda>s. map word_to_dict (words_of (seg_words s))) segs) else []),
      full_text_parts = full_text_parts acc @ map seg_text segs\<rparr>"
  by (cases ww) (simp_all add: consume_True consume_False segment_to_dict_no_words)

lemma word_json_to_dict: "word_json (word_to_dict w) = word_object w"
  by (simp add: word_json_def word_to_dict_def word_object_def)

lemma segment_json_entry:
  "segment_json ((segment_to_dict s)
       \<lparr>sd_words := if ww \<and> truthy_words (seg_words s)
                     then Some (map word_to_dict (words_of (seg_words s))) else None\<rparr>)
     = segment_object ww s"
  by (simp add: segment_json_def segment_to_dict_def segment_object_def word_json_to_dict comp_def)

text \<open>
  C6, as the code has it. When the engine's generator ends without an exception, the
  verbose response lists one object per segment, in order, with the keys \<^verbatim>\<open>id\<close>,
  \<^verbatim>\<open>start\<close>, \<^verbatim>\<open>end\<close>, \<^verbatim>\<open>text\<close>, \<^verbatim>\<open>avg_logprob\<close>, \<^verbatim>\<open>compression_ratio\<close>, \<^verbatim>\<open>no_speech_prob\<close>
  and \<^verbatim>\<open>temperature\<close>, and \<^verbatim>\<open>words\<close> when words were asked for and the segment has some.
  Start and end are rounded to 3 decimals; the log-probability, the compression ratio
  and the no-speech probability to 4; the temperature is the engine's value, not
  rounded. A word's start and end are rounded to 3 decimals and its probability to 4.
  Rounding to \<open>n\<close> decimals gives the float nearest to a decimal \<open>k / 10 ^ n\<close> that is
  within half a unit of the last place of the value.
\<close>

theorem verbose_json_payload:
  "(\<exists>t. try_body w ww (Inr ((segs, None), meta)) = Inr t
      \<and> format_response ''verbose_json'' ww t =
          JSONResponse
            (JObj [(''task'', JStr ''transcribe''),
                   (''language'', JStr (info_language meta)),
                   (''duration'', JFloat (py_round (info_duration meta) 3)),
                   (''text'', JStr (strip (concat (map seg_text segs)))),
                   (''segments'', JArr (map (segment_object ww) segs)),
                   (''words'',
                      JArr (if ww then concat (map (\<lambda>s. map word_object (words_of (seg_words s))) segs)
                            else [])),
                   (''processing_time'', JFloat (py_round (f_sub (time_end w) (time_start w)) 3))]))
   \<and> (\<exists>k. py_round x n = b64 (of_int k / 10 ^ n) \<and> \<bar>x * 10 ^ n - of_int k\<bar> \<le> 1 / 2)"
proof (rule conjI)
  show "\<exists>k. py_round x n = b64 (of_int k / 10 ^ n) \<and> \<bar>x * 10 ^ n - of_int k\<bar> \<le> 1 / 2"
    by (rule py_round_decimal)
qed (simp add: try_body_def consume_append format_response_def segment_json_entry
      word_json_to_dict comp_def map_concat)

lemma b64_quarter: "b64 (- (1 / 4)) = - (1 / 4)" "b64 (1 / 2) = 1 / 2"
  using b64_eqI [of "- 2" "- (1 / 4)" "- (2 ^ 52)"] b64_eqI [of "- 1" "1 / 2" "2 ^ 52"]
  by (simp_all add: power_int_minus)

lemma round_half_even_values:
  "round_half_even 0 = 0" "round_half_even 1000 = 1000" "round_half_even 500 = 500"
  "round_half_even 5000 = 5000" "round_half_even (- 2500) = - 2500" "round_half_even 10000 = 10000"
  by (simp_all add: round_half_even_def Let_def)

lemma round_half_even_tie: "round_half_even (625 / 2) = 312"
proof -
  have "\<lfloor>625 / 2 :: rat\<rfloor> = 312" by (rule floor_unique) simp_all
  then show ?thesis by (simp add: round_half_even_def Let_def)
qed

lemma round_half_even_31: "round_half_even (125 / 4) = 31"
  by (rule round_half_even_eqI) simp

lemma py_round_values:
  "py_round 0 n = 0" "py_round 1 3 = 1" "py_round (1 / 2) 3 = 1 / 2" "py_round (1 / 2) 4 = 1 / 2"
  "py_round (- (1 / 4)) 4 = - (1 / 4)" "py_round 1 4 = 1"
  by (simp_all add: py_round_def round_half_even_values b64_zero b64_one b64_quarter)

lemma py_round_thirtysecond:
  "py_round (1 / 32) 4 = 4496393867966703 / 144115188075855872"
  "py_round (1 / 32) 3 = 1116892707587883 / 36028797018963968"
  unfolding py_round_def
  using b64_eqI [of "- 6" "312 / 10000" 8992787735933406]
    b64_eqI [of "- 6" "31 / 1000" 8935141660703064]
  by (simp_all add: round_half_even_tie round_half_even_31 power_int_minus)

text \<open>
  C6 as the specification states it fails: for an engine segment whose temperature is
  0.03125, the response carries 0.03125, which is neither its rounding to 4 decimals
  (0.0312) nor to 3 (0.031).
\<close>

theorem temperature_not_rounded:
  "snd (transcribe world0 state0 form0) =
     Inr (JSONResponse
       (JObj [(''task'', JStr ''transcribe''),
              (''language'', JStr ''en''),
              (''duration'', JFloat 1),
              (''text'', JStr ''Engine''),
              (''segments'',
                 JArr [JObj [(''id'', JInt 0),
                             (''start'', JFloat 0),
                             (''end'', JFloat 1),
                             (''text'', JStr '' Engine''),
                             (''avg_logprob'', JFloat (- (1 / 4))),
                             (''compression_ratio'', JFloat 1),
                             (''no_speech_prob'', JFloat 0),
                             (''temperature'', JFloat (1 / 32)),
                             (''words'',
                                JArr [JObj [(''word'', JStr '' Engine''),
                                            (''start'', JFloat 0),
                                            (''end'', JFloat (1 / 2)),
                                            (''probability'', JFloat (1 / 2))]])]]),
              (''words'',
                 JArr [JObj [(''word'', JStr '' Engine''),
                             (''start'', JFloat 0),
                             (''end'', JFloat (1 / 2)),
                             (''probability'', JFloat (1 / 2))]]),
              (''processing_time'', JFloat 1)]))
   \<and> seg_temperature seg0 = 1 / 32
   \<and> py_round (1 / 32) 4 \<noteq> 1 / 32
   \<and> py_round (1 / 32) 3 \<noteq> 1 / 32"
proof -
  have ww: "want_words (word_timestamps form0) (timestamp_granularities form0) = True"
    by (simp add: want_words_def form0_def)
  have e: "engine world0 = (\<lambda>fs p kw. (fs, Inr (([seg0], None), \<lparr>info_language = ''en'', info_duration = 1\<rparr>)))"
    by (simp add: world0_def)
  have tm: "time_end world0 = 1" "time_start world0 = 0" by (simp_all add: world0_def)
  have st: "strip '' Engine'' = ''Engine''" by (simp add: strip_def is_space_def)
  have rf: "response_format form0 = ''verbose_json''" by (simp add: form0_def)
  have sub: "f_sub 1 0 = 1" by (simp add: f_sub_def b64_one)
  have seg: "segment_object True seg0 =
      JObj [(''id'', JInt 0), (''start'', JFloat 0), (''end'', JFloat 1), (''text'', JStr '' Engine''),
            (''avg_logprob'', JFloat (- (1 / 4))), (''compression_ratio'', JFloat 1),
            (''no_speech_prob'', JFloat 0), (''temperature'', JFloat (1 / 32)),
            (''words'', JArr [JObj [(''word'', JStr '' Engine''), (''start'', JFloat 0),
                                    (''end'', JFloat (1 / 2)), (''probability'', JFloat (1 / 2))]])]"
    by (simp add: segment_object_def word_object_def seg0_def word0_def py_round_values
        truthy_words_def words_of_def)
  have wo: "word_object word0 = JObj [(''word'', JStr '' Engine''), (''start'', JFloat 0),
                                    (''end'', JFloat (1 / 2)), (''probability'', JFloat (1 / 2))]"
    by (simp add: word_object_def word0_def py_round_values)
  have body: "try_body world0 True (Inr (([seg0], None), \<lparr>info_language = ''en'', info_duration = 1\<rparr>))
      = Inr \<lparr>tr_segments = [(segment_to_dict seg0)\<lparr>sd_words := Some [word_to_dict word0]\<rparr>],
             tr_words = [word_to_dict word0],
             tr_full_text = ''Engine'',
             tr_language = ''en'',
             tr_duration = 1,
             tr_processing_time = 1\<rparr>"
    by (simp add: try_body_def consume_append tm sub st py_round_values seg0_def truthy_words_def
        words_of_def)
  have sj: "segment_json ((segment_to_dict seg0)\<lparr>sd_words := Some [word_to_dict word0]\<rparr>)
      = segment_object True seg0"
    using segment_json_entry [where s = seg0 and ww = True]
    by (simp add: seg0_def truthy_words_def words_of_def)
  have "snd (transcribe world0 state0 form0) =
      Inr (format_response ''verbose_json'' True
        \<lparr>tr_segments = [(segment_to_dict seg0)\<lparr>sd_words := Some [word_to_dict word0]\<rparr>],
             tr_words = [word_to_dict word0],
             tr_full_text = ''Engine'',
             tr_language = ''en'',
             tr_duration = 1,
             tr_processing_time = 1\<rparr>)"
    by (simp add: transcribe_parsed [OF parse0(1,2)] Let_def ww e os_unlink_def body rf)
  then have 1: "snd (transcribe world0 state0 form0) = Inr (JSONResponse
       (JObj [(''task'', JStr ''transcribe''),
              (''language'', JStr ''en''),
              (''duration'', JFloat 1),
              (''text'', JStr ''Engine''),
              (''segments'', JArr [segment_object True seg0]),
              (''words'', JArr [word_object word0]),
              (''processing_time'', JFloat 1)]))"
    by (simp add: format_response_def sj word_json_to_dict)
  have 2: "seg_temperature seg0 = 1 / 32" by (simp add: seg0_def)
  have 3: "py_round (1 / 32) 4 \<noteq> 1 / 32" "py_round (1 / 32) 3 \<noteq> 1 / 32"
    by (simp_all add: py_round_thirtysecond)
  show ?thesis using 1 2 3 by (simp add: seg wo)
qed

theorem verbose_json_payload_witness:
  "\<exists>t. try_body world0 True (Inr (([seg0], None), \<lparr>info_language = ''en'', info_duration = 1\<rparr>)) = Inr t
      \<and> format_response ''verbose_json'' True t =
          JSONResponse
            (JObj [(''task'', JStr ''transcribe''),
                   (''language'', JStr ''en''),
                   (''duration'', JFloat 1),
                   (''text'', JStr ''Engine''),
                   (''segments'', JArr [segment_object True seg0]),
                   (''words'', JArr [word_object word0]),
                   (''processing_time'', JFloat 1)])"
proof -
  have tm: "time_end world0 = 1" "time_start world0 = 0" by (simp_all add: world0_def)
  have st: "strip '' Engine'' = ''Engine''" by (simp add: strip_def is_space_def)
  have sub: "f_sub 1 0 = 1" by (simp add: f_sub_def b64_one)
  show ?thesis
    using verbose_json_payload [where w = world0 and ww = True and segs = "[seg0]"
        and meta = "\<lparr>info_language = ''en'', info_duration = 1\<rparr>" and x = 0 and n = 0,
        THEN conjunct1]
    by (simp add: tm st sub py_round_values seg0_def words_of_def)
qed

subsection \<open>Subtitles\<close>
























subsection \<open>The sweep driver\<close>

lemma run_loop_missing:
  "\<not> path_exists w f \<Longrightarrow> run_loop w params (f # fs) calls results = run_loop w params fs calls results"
  by simp

lemma run_loop_failed:
  "path_exists w f \<Longrightarrow> fetch w (build_cmd f params) = Inl msg \<Longrightarrow>
   run_loop w params (f # fs) calls results =
     run_loop w params fs (calls @ [build_cmd f params]) (results @ [ErrorRecord (basename w f) msg])"
  by (simp add: Let_def)




lemma valid_Measured: "valid (map Measured ms) = ms"
  by (induction ms) simp_all

lemma valid_Nil_iff: "valid rs = [] \<longleftrightarrow> (\<forall>r \<in> set rs. \<exists>name msg. r = ErrorRecord name msg)"
  by (induction rs rule: valid.induct) simp_all

lemma valid_filter: "map Measured (valid rs) = filter (\<lambda>r. \<exists>m. r = Measured m) rs"
  by (induction rs rule: valid.induct) simp_all

lemma summary_table_valid:
  "summary_table table rows =
     summary_table (map (\<lambda>(label, rs). (label, map Measured (valid rs))) table) rows"
proof (induction table arbitrary: rows)
  case Nil
  then show ?case by simp
next
  case (Cons entry table)
  obtain label rs where entry: "entry = (label, rs)" by (cases entry)
  show ?case
    unfolding entry using Cons.IH
    by (simp add: valid_Measured split: sum.splits)
qed

text \<open>
  C10. The records without the key \<^verbatim>\<open>error\<close> are the valid ones. A configuration whose
  results are all error records gets no row in the summary table. The row of any other
  configuration is computed from its valid records alone: the table is the same when
  every error record is removed first, and the row holds the average of the average
  probabilities, the minimum of the minimum probabilities, the sum of the
  low-confidence counts and the average of the processing times of the valid records.
\<close>

theorem summary_over_valid_records:
  "(valid results = [] \<longleftrightarrow> (\<forall>r \<in> set results. \<exists>name msg. r = ErrorRecord name msg))
   \<and> map Measured (valid results) = filter (\<lambda>r. \<exists>m. r = Measured m) results
   \<and> (valid results = [] \<longrightarrow>
        summary_table ((label, results) # rest) rows = summary_table rest rows)
   \<and> (valid results \<noteq> [] \<longrightarrow>
        summary_table ((label, results) # rest) rows =
          (case summary_row label (valid results) of
             Inl e \<Rightarrow> Inl e
           | Inr r \<Rightarrow> summary_table rest (rows @ [r])))
   \<and> summary_table table rows =
        summary_table (map (\<lambda>(label, rs). (label, map Measured (valid rs))) table) rows
   \<and> (summary_row label vs = Inr r \<longrightarrow>
        row_label r = label
        \<and> row_avg_p r = f_div (py_sum (map m_avg_prob vs)) (of_nat (length vs))
        \<and> row_min_p r = py_min (map m_min_prob vs) 0
        \<and> row_low_c r = sum_list (map m_low_conf_words vs)
        \<and> (\<exists>ts. numbers_of (map m_proc_time vs) = Inr ts
              \<and> row_avg_t r = f_div (py_sum ts) (of_nat (length vs))))"
proof (intro conjI impI)
  show "valid results = [] \<longleftrightarrow> (\<forall>r \<in> set results. \<exists>name msg. r = ErrorRecord name msg)"
    by (rule valid_Nil_iff)
  show "map Measured (valid results) = filter (\<lambda>r. \<exists>m. r = Measured m) results"
    by (rule valid_filter)
  show "summary_table table rows =
        summary_table (map (\<lambda>(label, rs). (label, map Measured (valid rs))) table) rows"
    by (rule summary_table_valid)
next
  assume r: "summary_row label vs = Inr r"
  then obtain ts where ts: "numbers_of (map m_proc_time vs) = Inr ts"
    by (cases "numbers_of (map m_proc_time vs)") (simp_all add: summary_row_def Let_def)
  with r have r': "r = \<lparr>row_label = label,
      row_avg_p = f_div (py_sum (map m_avg_prob vs)) (of_nat (length vs)),
      row_min_p = py_min (map m_min_prob vs) 0,
      row_low_c = sum_list (map m_low_conf_words vs),
      row_avg_t = f_div (py_sum ts) (of_nat (length vs))\<rparr>"
    by (simp add: summary_row_def Let_def)
  show "row_label r = label" by (simp add: r')
  show "row_avg_p r = f_div (py_sum (map m_avg_prob vs)) (of_nat (length vs))" by (simp add: r')
  show "row_min_p r = py_min (map m_min_prob vs) 0" by (simp add: r')
  show "row_low_c r = sum_list (map m_low_conf_words vs)" by (simp add: r')
  show "\<exists>ts. numbers_of (map m_proc_time vs) = Inr ts
              \<and> row_avg_t r = f_div (py_sum ts) (of_nat (length vs))"
    using ts by (simp add: r')
qed simp_all

theorem summary_over_valid_records_witness:
  "summary_table
     [(''BEAM=1'', [ErrorRecord ''call.m4a'' ''timed out'']),
      (''BEAM=3'', [ErrorRecord ''other.m4a'' ''timed out'', Measured measurement0])] []
   = Inr [\<lparr>row_label = ''BEAM=3'', row_avg_p = 1 / 2, row_min_p = 1 / 4, row_low_c = 1,
            row_avg_t = 1 / 2\<rparr>]"
proof -
  note t = summary_over_valid_records
  have 1: "summary_table
     [(''BEAM=1'', [ErrorRecord ''call.m4a'' ''timed out'']),
      (''BEAM=3'', [ErrorRecord ''other.m4a'' ''timed out'', Measured measurement0])] []
    = summary_table [(''BEAM=3'', [ErrorRecord ''other.m4a'' ''timed out'', Measured measurement0])] []"
    using t [where results = "[ErrorRecord ''call.m4a'' ''timed out'']" and label = "''BEAM=1''"
        and rest = "[(''BEAM=3'', [ErrorRecord ''other.m4a'' ''timed out'', Measured measurement0])]"
        and rows = "[]", THEN conjunct2, THEN conjunct2, THEN conjunct1]
    by simp
  have row: "summary_row ''BEAM=3'' [measurement0]
      = Inr \<lparr>row_label = ''BEAM=3'', row_avg_p = 1 / 2, row_min_p = 1 / 4, row_low_c = 1,
            row_avg_t = 1 / 2\<rparr>"
    by (simp add: summary_row_def measurement0_def py_sum_def f_add_def f_div_def b64_quarter
        number_of_def)
  have 2: "summary_table [(''BEAM=3'', [ErrorRecord ''other.m4a'' ''timed out'', Measured measurement0])] []
    = Inr [\<lparr>row_label = ''BEAM=3'', row_avg_p = 1 / 2, row_min_p = 1 / 4, row_low_c = 1,
            row_avg_t = 1 / 2\<rparr>]"
    using t [where results = "[ErrorRecord ''other.m4a'' ''timed out'', Measured measurement0]"
        and label = "''BEAM=3''" and rest = "[]" and rows = "[]",
        THEN conjunct2, THEN conjunct2, THEN conjunct2, THEN conjunct1]
    by (simp add: row)
  from 1 2 show ?thesis by simp
qed

subsection \<open>The default response\<close>

lemma transcribe_with_format:
  assumes "parse_temperature (to_float w) (temperature f) = Inr temp"
    and "int_list (to_int w) (split CHR '','' (suppress_tokens f)) = Inr toks"
  shows "transcribe w st (f\<lparr>response_format := x\<rparr>) =
     (let ww = want_words (word_timestamps f) (timestamp_granularities f);
          p = tmp_path w f;
          kw = engine_kwargs f temp toks;
          out = engine w ((files st)(p \<mapsto> upload f)) p kw;
          calls = engine_calls st @ [(p, kw)]
      in case os_unlink (fst out) p of
           Inl e \<Rightarrow> (\<lparr>files = fst out, engine_calls = calls\<rparr>, Inl e)
         | Inr fs3 \<Rightarrow>
             (\<lparr>files = fs3, engine_calls = calls\<rparr>,
              case try_body w ww (snd out) of
                Inl e \<Rightarrow> Inl e
              | Inr t \<Rightarrow> Inr (format_response x ww t)))"
proof -
  have 3: "tmp_path w (f\<lparr>response_format := x\<rparr>) = tmp_path w f"
    by (simp add: tmp_path_def suffix_of_def)
  have 4: "engine_kwargs (f\<lparr>response_format := x\<rparr>) a b = engine_kwargs f a b" for a b
    by (simp add: engine_kwargs_def vad_params_def)
  show ?thesis
    using assms
    by (subst transcribe_parsed [where temp = temp and toks = toks])
       (simp_all add: 3 4 Let_def split: sum.splits)
qed

lemma try_body_completed:
  "try_body w ww (Inr ((segs, None), meta)) = Inr t \<Longrightarrow>
   tr_full_text t = strip (concat (map seg_text segs))"
  by (auto simp add: try_body_def consume_append)

lemma try_body_returns:
  "\<exists>t. try_body w ww (Inr ((segs, None), meta)) = Inr t"
  by (simp add: try_body_def Let_def)

text \<open>
  C4. A response format other than \<^verbatim>\<open>text\<close>, \<^verbatim>\<open>srt\<close>, \<^verbatim>\<open>vtt\<close> and \<^verbatim>\<open>verbose_json\<close> makes
  the handler do exactly what it does for \<^verbatim>\<open>json\<close>: the same state and the same outcome.
  The choice of the format raises nothing: whenever the handler returns a response, it
  is a JSON object that holds only the key \<^verbatim>\<open>text\<close>; and when the two fields parse, the
  engine's generator ends without an exception and the transient file is still on disk,
  the handler does return, with the object whose \<^verbatim>\<open>text\<close> is the trimmed concatenation of
  the segment texts.
\<close>

theorem unrecognised_format_is_json:
  assumes "fmt \<notin> {''text'', ''srt'', ''vtt'', ''verbose_json''}"
  shows "transcribe w st (f\<lparr>response_format := fmt\<rparr>)
           = transcribe w st (f\<lparr>response_format := ''json''\<rparr>)
    \<and> format_response fmt ww t = JSONResponse (JObj [(''text'', JStr (tr_full_text t))])
    \<and> format_response ''json'' ww t = JSONResponse (JObj [(''text'', JStr (tr_full_text t))])
    \<and> (snd (transcribe w st (f\<lparr>response_format := fmt\<rparr>)) = Inr resp \<longrightarrow>
         (\<exists>txt. resp = JSONResponse (JObj [(''text'', JStr txt)])))
    \<and> (parse_temperature (to_float w) (temperature f) = Inr temp
         \<and> int_list (to_int w) (split CHR '','' (suppress_tokens f)) = Inr toks
         \<and> engine w ((files st)(tmp_path w f \<mapsto> upload f)) (tmp_path w f)
               (engine_kwargs f temp toks) = (disk, Inr ((segs, None), meta))
         \<and> tmp_path w f \<in> dom disk \<longrightarrow>
         transcribe w st (f\<lparr>response_format := fmt\<rparr>) =
           (\<lparr>files = disk(tmp_path w f := None),
             engine_calls = engine_calls st @ [(tmp_path w f, engine_kwargs f temp toks)]\<rparr>,
            Inr (JSONResponse (JObj [(''text'', JStr (strip (concat (map seg_text segs))))]))))"
proof (intro conjI impI)
  have 1: "format_response fmt ww t = JSONResponse (JObj [(''text'', JStr (tr_full_text t))])"
    for ww t
    using assms by (simp add: format_response_def)
  have 2: "format_response ''json'' ww t = JSONResponse (JObj [(''text'', JStr (tr_full_text t))])"
    for ww t
    by (simp add: format_response_def)
  show "format_response fmt ww t = JSONResponse (JObj [(''text'', JStr (tr_full_text t))])"
    by (rule 1)
  show "format_response ''json'' ww t = JSONResponse (JObj [(''text'', JStr (tr_full_text t))])"
    by (rule 2)
  show "transcribe w st (f\<lparr>response_format := fmt\<rparr>)
           = transcribe w st (f\<lparr>response_format := ''json''\<rparr>)"
  proof (cases "parse_temperature (to_float w) (temperature f)")
    case (Inl e)
    then have "transcribe w st (f\<lparr>response_format := x\<rparr>) = (st, Inl e)" for x
      by (intro transcribe_rejected) simp
    then show ?thesis by simp
  next
    case a: (Inr a)
    show ?thesis
    proof (cases "int_list (to_int w) (split CHR '','' (suppress_tokens f))")
      case (Inl e)
      with a have "transcribe w st (f\<lparr>response_format := x\<rparr>) = (st, Inl e)" for x
        by (intro transcribe_rejected) simp
      then show ?thesis by simp
    next
      case (Inr b)
      show ?thesis
        by (simp add: transcribe_with_format [OF a Inr] 1 2 Let_def split: sum.splits)
    qed
  qed
next
    have 1: "format_response fmt ww t = JSONResponse (JObj [(''text'', JStr (tr_full_text t))])"
      for ww t
      using assms by (simp add: format_response_def)
    assume r: "snd (transcribe w st (f\<lparr>response_format := fmt\<rparr>)) = Inr resp"
    show "\<exists>txt. resp = JSONResponse (JObj [(''text'', JStr txt)])"
    proof (cases "parse_temperature (to_float w) (temperature f)")
      case (Inl e)
      then have "transcribe w st (f\<lparr>response_format := fmt\<rparr>) = (st, Inl e)"
        by (intro transcribe_rejected) simp
      with r show ?thesis by simp
    next
      case a: (Inr a)
      show ?thesis
      proof (cases "int_list (to_int w) (split CHR '','' (suppress_tokens f))")
        case (Inl e)
        with a have "transcribe w st (f\<lparr>response_format := fmt\<rparr>) = (st, Inl e)"
          by (intro transcribe_rejected) simp
        with r show ?thesis by simp
      next
        case (Inr b)
        show ?thesis
          using r
          by (auto simp add: transcribe_with_format [OF a Inr] 1 Let_def split: sum.splits)
      qed
    qed
next
    have 1: "format_response fmt ww t = JSONResponse (JObj [(''text'', JStr (tr_full_text t))])"
      for ww t
      using assms by (simp add: format_response_def)
    assume h: "parse_temperature (to_float w) (temperature f) = Inr temp
         \<and> int_list (to_int w) (split CHR '','' (suppress_tokens f)) = Inr toks
         \<and> engine w ((files st)(tmp_path w f \<mapsto> upload f)) (tmp_path w f)
               (engine_kwargs f temp toks) = (disk, Inr ((segs, None), meta))
         \<and> tmp_path w f \<in> dom disk"
    then have a: "parse_temperature (to_float w) (temperature f) = Inr temp"
      and b: "int_list (to_int w) (split CHR '','' (suppress_tokens f)) = Inr toks"
      and e: "engine w ((files st)(tmp_path w f \<mapsto> upload f)) (tmp_path w f)
               (engine_kwargs f temp toks) = (disk, Inr ((segs, None), meta))"
      and d: "tmp_path w f \<in> dom disk"
      by simp_all
    obtain t' where t': "try_body w (want_words (word_timestamps f) (timestamp_granularities f))
        (Inr ((segs, None), meta)) = Inr t'"
      using try_body_returns by blast
    have ft: "tr_full_text t' = strip (concat (map seg_text segs))"
      by (rule try_body_completed [OF t'])
    show "transcribe w st (f\<lparr>response_format := fmt\<rparr>) =
           (\<lparr>files = disk(tmp_path w f := None),
             engine_calls = engine_calls st @ [(tmp_path w f, engine_kwargs f temp toks)]\<rparr>,
            Inr (JSONResponse (JObj [(''text'', JStr (strip (concat (map seg_text segs))))])))"
      using d by (simp add: transcribe_with_format [OF a b] Let_def e os_unlink_def t' 1 ft)
qed

theorem unrecognised_format_is_json_witness:
  "transcribe world0 state0 (form0\<lparr>response_format := ''yaml''\<rparr>)
     = transcribe world0 state0 (form0\<lparr>response_format := ''json''\<rparr>)
   \<and> transcribe world0 state0 (form0\<lparr>response_format := ''yaml''\<rparr>)
     = (\<lparr>files = Map.empty,
         engine_calls = [(tmp_path world0 form0, engine_kwargs form0 (Scalar (Finite 0)) [- 1])]\<rparr>,
        Inr (JSONResponse (JObj [(''text'', JStr ''Engine'')])))"
proof -
  note t = unrecognised_format_is_json [where fmt = "''yaml''" and w = world0 and st = state0
      and f = form0 and temp = "Scalar (Finite 0)" and toks = "[- 1]"
      and disk = "[tmp_path world0 form0 \<mapsto> upload form0]" and segs = "[seg0]"
      and meta = "\<lparr>info_language = ''en'', info_duration = 1\<rparr>"]
  have y: "''yaml'' \<notin> {''text'', ''srt'', ''vtt'', ''verbose_json''}" by simp
  have e: "engine world0 [tmp_path world0 form0 \<mapsto> upload form0] (tmp_path world0 form0)
      (engine_kwargs form0 (Scalar (Finite 0)) [- 1])
    = ([tmp_path world0 form0 \<mapsto> upload form0],
       Inr (([seg0], None), \<lparr>info_language = ''en'', info_duration = 1\<rparr>))"
    by (simp add: world0_def)
  have st: "strip (seg_text seg0) = ''Engine''"
    by (simp add: seg0_def strip_def is_space_def)
  have 1: "transcribe world0 state0 (form0\<lparr>response_format := ''yaml''\<rparr>)
     = transcribe world0 state0 (form0\<lparr>response_format := ''json''\<rparr>)"
    using t [OF y, THEN conjunct1] .
  have 2: "transcribe world0 state0 (form0\<lparr>response_format := ''yaml''\<rparr>)
     = (\<lparr>files = Map.empty,
         engine_calls = [(tmp_path world0 form0, engine_kwargs form0 (Scalar (Finite 0)) [- 1])]\<rparr>,
        Inr (JSONResponse (JObj [(''text'', JStr ''Engine'')])))"
    using t [OF y, THEN conjunct2, THEN conjunct2, THEN conjunct2, THEN conjunct2] parse0(1,2) e
    by (simp add: state0_def st)
  from 1 2 show ?thesis by simp
qed

end
